theory Spec2Isabelle
  imports Complex_Main
begin

section \<open>TeDasuke: a shallow embedding of the query, pagination, error and cache core\<close>

text \<open>
  The development follows the TypeScript sources \<^verbatim>\<open>src/utils.ts\<close>,
  \<^verbatim>\<open>src/errors.ts\<close>, \<^verbatim>\<open>src/client.ts\<close>, \<^verbatim>\<open>src/table.ts\<close> and
  \<^verbatim>\<open>src/cache.ts\<close>.

  Conventions of the embedding:
  \<^item> a JavaScript string is represented by the byte sequence of its UTF-8 encoding
    (\<^typ>\<open>string\<close>); only well-formed strings are represented (no lone surrogates);
  \<^item> a JavaScript \<^verbatim>\<open>number\<close> is a value of the type \<open>number\<close> below: the finite
    doubles are represented by exact rationals, next to the two infinities and NaN;
    the rounding of double arithmetic is not part of the model;
  \<^item> an optional field (\<^verbatim>\<open>x?: T\<close>) is an \<^typ>\<open>'a option\<close>, \<open>None\<close> standing for
    \<^verbatim>\<open>undefined\<close>;
  \<^item> a \<^verbatim>\<open>throw\<close> is the left injection of a sum, a normal return the right one;
  \<^item> \<^verbatim>\<open>String(n)\<close> for a number \<open>n\<close> is a builtin of the language; the functions
    that call it take it as their first parameter (called \<open>S\<close>).
\<close>

subsection \<open>Numbers\<close>

datatype number = Finite rat | PosInfinity | NegInfinity | NaN

text \<open>The comparison \<^verbatim>\<open>a < b\<close> of the language: false as soon as one side is NaN.\<close>

fun js_lt :: "number \<Rightarrow> number \<Rightarrow> bool" where
  "js_lt NaN b = False"
| "js_lt a NaN = False"
| "js_lt (Finite a) (Finite b) = (a < b)"
| "js_lt (Finite a) PosInfinity = True"
| "js_lt (Finite a) NegInfinity = False"
| "js_lt PosInfinity b = False"
| "js_lt NegInfinity NegInfinity = False"
| "js_lt NegInfinity b = True"


text \<open>\<^verbatim>\<open>a >= b\<close>: false when one side is NaN, otherwise the negation of \<^verbatim>\<open>a < b\<close>.\<close>

definition js_ge :: "number \<Rightarrow> number \<Rightarrow> bool" where
  "js_ge a b = (a \<noteq> NaN \<and> b \<noteq> NaN \<and> \<not> js_lt a b)"

text \<open>\<^verbatim>\<open>a + b\<close> on numbers.\<close>

fun js_add :: "number \<Rightarrow> number \<Rightarrow> number" where
  "js_add NaN b = NaN"
| "js_add a NaN = NaN"
| "js_add (Finite a) (Finite b) = Finite (a + b)"
| "js_add (Finite a) b = b"
| "js_add a (Finite b) = a"
| "js_add PosInfinity PosInfinity = PosInfinity"
| "js_add NegInfinity NegInfinity = NegInfinity"
| "js_add PosInfinity NegInfinity = NaN"
| "js_add NegInfinity PosInfinity = NaN"

text \<open>Truthiness of a number: \<^verbatim>\<open>0\<close> and NaN are falsy.\<close>

definition truthy_number :: "number \<Rightarrow> bool" where
  "truthy_number n = (n \<noteq> Finite 0 \<and> n \<noteq> NaN)"

definition num :: "int \<Rightarrow> number" where
  "num i = Finite (of_int i)"

subsection \<open>Strings, percent-encoding\<close>

text \<open>
  \<^verbatim>\<open>encodeURIComponent\<close> leaves the unreserved characters
  \<^verbatim>\<open>A-Z a-z 0-9 - _ . ! ~ * ' ( )\<close> alone and replaces every other byte of the UTF-8
  encoding by \<^verbatim>\<open>%XX\<close> with two upper-case hexadecimal digits.
\<close>

definition unreserved :: "char \<Rightarrow> bool" where
  "unreserved c =
     (c \<in> set ''ABCDEFGHIJKLMNOPQRSTUVWXYZabcdefghijklmnopqrstuvwxyz0123456789-_.!~*()''
      \<or> c = CHR 0x27)"

definition hex_digit :: "nat \<Rightarrow> char" where
  "hex_digit n = ''0123456789ABCDEF'' ! (n mod 16)"

definition encode_byte :: "char \<Rightarrow> string" where
  "encode_byte c =
     (if unreserved c then [c]
      else [CHR ''%'', hex_digit (of_char c div 16), hex_digit (of_char c mod 16)])"

definition encodeURIComponent :: "string \<Rightarrow> string" where
  "encodeURIComponent s = concat (map encode_byte s)"

definition encodeTableName :: "string \<Rightarrow> string" where
  "encodeTableName name = encodeURIComponent name"

definition encodeViewName :: "string \<Rightarrow> string" where
  "encodeViewName name = encodeURIComponent name"

text \<open>\<^verbatim>\<open>parts.join(sep)\<close>.\<close>

fun join :: "string \<Rightarrow> string list \<Rightarrow> string" where
  "join sep [] = []"
| "join sep [p] = p"
| "join sep (p # q # ps) = p @ sep @ join sep (q # ps)"

subsection \<open>\<^verbatim>\<open>utils.ts\<close>: query strings, sort tokens, the pagination limit\<close>

text \<open>
  The values of the parameter object given to \<^verbatim>\<open>buildQueryString\<close>:
  \<^verbatim>\<open>string | number | boolean | string[] | undefined\<close>. The object itself is the list
  of its entries in insertion order, the order of \<^verbatim>\<open>Object.entries\<close>.
\<close>

datatype param_value =
    PString string
  | PNumber number
  | PBoolean bool
  | PArray "string list"
  | PUndefined

definition String_boolean :: "bool \<Rightarrow> string" where
  "String_boolean b = (if b then ''true'' else ''false'')"

fun entry_parts :: "(number \<Rightarrow> string) \<Rightarrow> string \<times> param_value \<Rightarrow> string list" where
  "entry_parts S (key, PUndefined) = []"
| "entry_parts S (key, PArray items) =
     map (\<lambda>item. encodeURIComponent key @ ''='' @ encodeURIComponent item) items"
| "entry_parts S (key, PString v) = [encodeURIComponent key @ ''='' @ encodeURIComponent v]"
| "entry_parts S (key, PNumber n) = [encodeURIComponent key @ ''='' @ encodeURIComponent (S n)]"
| "entry_parts S (key, PBoolean b) =
     [encodeURIComponent key @ ''='' @ encodeURIComponent (String_boolean b)]"

definition buildQueryString :: "(number \<Rightarrow> string) \<Rightarrow> (string \<times> param_value) list \<Rightarrow> string" where
  "buildQueryString S params =
     (let parts = concat (map (entry_parts S) params)
      in if length parts > 0 then ''?'' @ join ''&'' parts else '''')"

datatype direction = ASC | DESC

fun direction_name :: "direction \<Rightarrow> string" where
  "direction_name ASC = ''ASC''"
| "direction_name DESC = ''DESC''"

definition formatSort :: "string \<Rightarrow> direction \<Rightarrow> string" where
  "formatSort col dir = col @ ''//'' @ direction_name dir"

subsection \<open>\<^verbatim>\<open>errors.ts\<close>: what can be thrown\<close>

datatype error_class =
    TeamDeskError
  | AuthenticationError
  | ValidationError
  | NotFoundError
  | RateLimitError
  | ServerError

text \<open>\<^verbatim>\<open>ApiError\<close> of \<^verbatim>\<open>types.ts\<close>: the fields \<^verbatim>\<open>column?\<close> and \<^verbatim>\<open>message\<close>.\<close>

record ApiError =
  api_column :: "string option"
  api_message :: string

text \<open>
  An instance of \<^verbatim>\<open>TeamDeskError\<close> or of one of its subclasses: \<open>e_class\<close> is the
  class of the instance, the other fields are \<^verbatim>\<open>message\<close>, \<^verbatim>\<open>status\<close>,
  \<^verbatim>\<open>details\<close>, \<^verbatim>\<open>url\<close> and (on \<^verbatim>\<open>RateLimitError\<close>) \<^verbatim>\<open>retryAfter\<close>.
\<close>

record teamdesk_error =
  e_class :: error_class
  e_message :: string
  e_status :: "int option"
  e_details :: "ApiError list option"
  e_url :: "string option"
  e_retryAfter :: "number option"

text \<open>
  A thrown value is either a plain \<^verbatim>\<open>Error\<close> of the language (with its message), as
  raised for usage errors and by the runtime, or an instance of the typed hierarchy.
\<close>

datatype exn =
    Error string
  | Typed teamdesk_error


subsection \<open>Reading a query string back\<close>

text \<open>
  The receiving side of the wire: percent-decoding as the inverse of the encoding
  (\<^verbatim>\<open>%XX\<close> with two hexadecimal digits is one byte, a \<^verbatim>\<open>%\<close> that is not
  followed by two digits is malformed), and the reading of a query string
  \<^verbatim>\<open>?k=v&k=v...\<close> into its list of decoded pairs. The functions of this subsection
  are not part of the library; they state what the query string means to the one who
  receives it.
\<close>

definition unhex :: "char \<Rightarrow> nat option" where
  "unhex c =
     (let n = (of_char c :: nat) in
      if 48 \<le> n \<and> n \<le> 57 then Some (n - 48)
      else if 65 \<le> n \<and> n \<le> 70 then Some (n - 55)
      else if 97 \<le> n \<and> n \<le> 102 then Some (n - 87)
      else None)"

fun percent_decode :: "string \<Rightarrow> string option" where
  "percent_decode [] = Some []"
| "percent_decode (c # cs) =
     (if c = CHR ''%'' then
        (case cs of
           h # l # rest \<Rightarrow>
             (case (unhex h, unhex l) of
                (Some a, Some b) \<Rightarrow>
                  map_option ((#) (char_of (16 * a + b))) (percent_decode rest)
              | _ \<Rightarrow> None)
         | _ \<Rightarrow> None)
      else map_option ((#) c) (percent_decode cs))"

text \<open>\<^verbatim>\<open>s.split(d)\<close> for a one-character separator.\<close>

fun split_on :: "char \<Rightarrow> string \<Rightarrow> string list" where
  "split_on d [] = [[]]"
| "split_on d (c # cs) =
     (if c = d then [] # split_on d cs
      else (let r = split_on d cs in (c # hd r) # tl r))"

definition parse_pair :: "string \<Rightarrow> (string \<times> string) option" where
  "parse_pair p =
     (case dropWhile (\<lambda>c. c \<noteq> CHR ''='') p of
        [] \<Rightarrow> None
      | eq # v \<Rightarrow>
          (case (percent_decode (takeWhile (\<lambda>c. c \<noteq> CHR ''='') p), percent_decode v) of
             (Some k', Some v') \<Rightarrow> Some (k', v')
           | _ \<Rightarrow> None))"

definition parse_query :: "string \<Rightarrow> (string \<times> string) list option" where
  "parse_query q =
     (case q of
        [] \<Rightarrow> Some []
      | c # rest \<Rightarrow>
          if c = CHR ''?'' then those (map parse_pair (split_on CHR ''&'' rest)) else None)"

text \<open>All the values a parameter list gives for one key, in order.\<close>

definition values_of :: "string \<Rightarrow> (string \<times> string) list \<Rightarrow> string list" where
  "values_of k ps = map snd (filter (\<lambda>p. fst p = k) ps)"

subsection \<open>\<^verbatim>\<open>table.ts\<close>: the query intent and its parameters\<close>

text \<open>
  \<^verbatim>\<open>SelectOptions\<close> of \<^verbatim>\<open>types.ts\<close>. The fields \<^verbatim>\<open>filter\<close> and \<^verbatim>\<open>top\<close> are
  called \<open>filter_expr\<close> and \<open>top_n\<close> here.
\<close>

record SelectOptions =
  columns :: "string list option"
  filter_expr :: "string option"
  sortColumn :: "string option"
  sortDirection :: "direction option"
  skip :: "number option"
  top_n :: "number option"

text \<open>The initial value \<^verbatim>\<open>{}\<close> of the field \<^verbatim>\<open>options\<close>.\<close>

definition empty_options :: SelectOptions where
  "empty_options =
     \<lparr>columns = None, filter_expr = None, sortColumn = None, sortDirection = None,
      skip = None, top_n = None\<rparr>"

text \<open>
  \<^verbatim>\<open>SelectBuilder.buildQueryParams\<close>. A key is put into \<^verbatim>\<open>params\<close> only when its
  condition holds; an empty string is falsy, an array is truthy.
\<close>

definition buildQueryParams :: "(number \<Rightarrow> string) \<Rightarrow> SelectOptions \<Rightarrow> string" where
  "buildQueryParams S opts =
     buildQueryString S
       ((case columns opts of
           Some cs \<Rightarrow> if length cs > 0 then [(''column'', PArray cs)] else []
         | None \<Rightarrow> []) @
        (case filter_expr opts of
           Some f \<Rightarrow> if f \<noteq> [] then [(''filter'', PString f)] else []
         | None \<Rightarrow> []) @
        (case sortColumn opts of
           Some c \<Rightarrow>
             if c \<noteq> []
             then [(''sort'', PString (formatSort c
                      (case sortDirection opts of Some d \<Rightarrow> d | None \<Rightarrow> ASC)))]
             else []
         | None \<Rightarrow> []) @
        (case top_n opts of Some t \<Rightarrow> [(''top'', PNumber t)] | None \<Rightarrow> []) @
        (case skip opts of Some k \<Rightarrow> [(''skip'', PNumber k)] | None \<Rightarrow> []))"

text \<open>
  The pairs a parameter entry stands for, on the receiving side: an array gives one
  pair per item, \<^verbatim>\<open>undefined\<close> gives none.
\<close>

fun entry_pairs :: "(number \<Rightarrow> string) \<Rightarrow> string \<times> param_value \<Rightarrow> (string \<times> string) list" where
  "entry_pairs S (key, PUndefined) = []"
| "entry_pairs S (key, PArray items) = map (\<lambda>item. (key, item)) items"
| "entry_pairs S (key, PString v) = [(key, v)]"
| "entry_pairs S (key, PNumber n) = [(key, S n)]"
| "entry_pairs S (key, PBoolean b) = [(key, String_boolean b)]"

subsection \<open>JSON values and \<^verbatim>\<open>String(...)\<close>\<close>

text \<open>
  A parsed JSON value. An object is the list of its own properties, looked up with
  \<^const>\<open>map_of\<close>.
\<close>

datatype json =
    JNull
  | JBoolean bool
  | JNumber number
  | JString string
  | JArray "json list"
  | JObject "(string \<times> json) list"

text \<open>
  \<^verbatim>\<open>String(v)\<close> for a JSON value: a string is itself, an array is the join of its
  elements with a comma (\<^verbatim>\<open>null\<close> elements giving the empty string), every object is
  \<^verbatim>\<open>[object Object]\<close>.
\<close>

fun String_json :: "(number \<Rightarrow> string) \<Rightarrow> json \<Rightarrow> string" where
  "String_json S JNull = ''null''"
| "String_json S (JBoolean b) = String_boolean b"
| "String_json S (JNumber n) = S n"
| "String_json S (JString s) = s"
| "String_json S (JArray xs) =
     join '','' (map (\<lambda>x. if x = JNull then '''' else String_json S x) xs)"
| "String_json S (JObject kvs) = ''[object Object]''"

text \<open>Truthiness of a JSON value.\<close>

fun json_truthy :: "json \<Rightarrow> bool" where
  "json_truthy JNull = False"
| "json_truthy (JBoolean b) = b"
| "json_truthy (JNumber n) = truthy_number n"
| "json_truthy (JString s) = (s \<noteq> [])"
| "json_truthy (JArray xs) = True"
| "json_truthy (JObject kvs) = True"

subsection \<open>\<^verbatim>\<open>utils.ts\<close>: \<^verbatim>\<open>parseErrorResponse\<close>\<close>

text \<open>One element of \<^verbatim>\<open>body.errors\<close>, mapped to an \<^verbatim>\<open>ApiError\<close>.\<close>

fun api_error_of :: "(number \<Rightarrow> string) \<Rightarrow> json \<Rightarrow> ApiError" where
  "api_error_of S (JObject kvs) =
     \<lparr>api_column = (case map_of kvs ''column'' of Some c \<Rightarrow> Some (String_json S c) | None \<Rightarrow> None),
      api_message = (case map_of kvs ''message'' of
                       Some m \<Rightarrow> String_json S m
                     | None \<Rightarrow> ''Unknown error'')\<rparr>"
| "api_error_of S (JArray xs) = \<lparr>api_column = None, api_message = ''Unknown error''\<rparr>"
| "api_error_of S err = \<lparr>api_column = None, api_message = String_json S err\<rparr>"

text \<open>\<^verbatim>\<open>e.column ? `${e.column}: ${e.message}` : e.message\<close>: an empty column is falsy.\<close>

definition error_line :: "ApiError \<Rightarrow> string" where
  "error_line e =
     (case api_column e of
        Some c \<Rightarrow> if c \<noteq> [] then c @ '': '' @ api_message e else api_message e
      | None \<Rightarrow> api_message e)"

fun parseErrorResponse :: "(number \<Rightarrow> string) \<Rightarrow> json \<Rightarrow> string \<times> ApiError list" where
  "parseErrorResponse S (JString body) = (body, [\<lparr>api_column = None, api_message = body\<rparr>])"
| "parseErrorResponse S (JObject kvs) =
     (case map_of kvs ''errors'' of
        Some (JArray errs) \<Rightarrow>
          (let errors = map (api_error_of S) errs
           in (join ''; '' (map error_line errors), errors))
      | _ \<Rightarrow>
          (case map_of kvs ''message'' of
             Some m \<Rightarrow>
               (let message = String_json S m
                in (message, [\<lparr>api_column = None, api_message = message\<rparr>]))
           | None \<Rightarrow>
               (''Unknown error'', [\<lparr>api_column = None, api_message = ''Unknown error''\<rparr>])))"
| "parseErrorResponse S body =
     (''Unknown error'', [\<lparr>api_column = None, api_message = ''Unknown error''\<rparr>])"

subsection \<open>\<^verbatim>\<open>parseInt(s, 10)\<close>\<close>

text \<open>
  Leading white space is skipped (in the UTF-8 representation: the ASCII white space,
  U+00A0, U+1680, U+2000 to U+200A, U+2028, U+2029, U+202F, U+205F, U+3000 and
  U+FEFF), then an optional sign is read, then the longest run of decimal digits; no
  digit gives NaN.
\<close>

definition is_digit :: "char \<Rightarrow> bool" where
  "is_digit c = (48 \<le> (of_char c :: nat) \<and> (of_char c :: nat) \<le> 57)"

definition digit_value :: "char \<Rightarrow> int" where
  "digit_value c = int (of_char c) - 48"

definition decimal_value :: "string \<Rightarrow> int" where
  "decimal_value ds = foldl (\<lambda>acc c. 10 * acc + digit_value c) 0 ds"

fun strip_white_space :: "string \<Rightarrow> string" where
  "strip_white_space [] = []"
| "strip_white_space (c # cs) =
     (let n = (of_char c :: nat) in
      if n = 0x20 \<or> (0x09 \<le> n \<and> n \<le> 0x0D) then strip_white_space cs
      else if n = 0xC2 then
        (case cs of
           d # rest \<Rightarrow> if (of_char d :: nat) = 0xA0 then strip_white_space rest else c # cs
         | [] \<Rightarrow> c # cs)
      else if n = 0xE1 \<or> n = 0xE2 \<or> n = 0xE3 \<or> n = 0xEF then
        (case cs of
           d # e # rest \<Rightarrow>
             (let x = (of_char d :: nat); y = (of_char e :: nat) in
              if (n = 0xE1 \<and> x = 0x9A \<and> y = 0x80)
                 \<or> (n = 0xE2 \<and> x = 0x80 \<and> 0x80 \<le> y \<and> y \<le> 0x8A)
                 \<or> (n = 0xE2 \<and> x = 0x80 \<and> (y = 0xA8 \<or> y = 0xA9 \<or> y = 0xAF))
                 \<or> (n = 0xE2 \<and> x = 0x81 \<and> y = 0x9F)
                 \<or> (n = 0xE3 \<and> x = 0x80 \<and> y = 0x80)
                 \<or> (n = 0xEF \<and> x = 0xBB \<and> y = 0xBF)
              then strip_white_space rest else c # cs)
         | _ \<Rightarrow> c # cs)
      else c # cs)"

definition parseInt :: "string \<Rightarrow> number" where
  "parseInt s =
     (let t = strip_white_space s;
          negative = (case t of c # r \<Rightarrow> c = CHR ''-'' | [] \<Rightarrow> False);
          u = (case t of c # r \<Rightarrow> if c = CHR ''-'' \<or> c = CHR ''+'' then r else t | [] \<Rightarrow> t);
          ds = takeWhile is_digit u
      in if ds = [] then NaN
         else num (if negative then - decimal_value ds else decimal_value ds))"

subsection \<open>\<^verbatim>\<open>client.ts\<close>: configuration, URLs, headers\<close>

text \<open>
  \<^verbatim>\<open>TeamDeskConfig\<close>, as the constructor reads it: \<^verbatim>\<open>appId\<close> is a string or a
  number, \<^verbatim>\<open>cacheDir\<close> a string, \<^verbatim>\<open>null\<close> or \<^verbatim>\<open>false\<close>; every field but
  \<^verbatim>\<open>appId\<close> may be absent.
\<close>

datatype app_id = AppIdString string | AppIdNumber number

datatype cache_dir_setting = CacheDirPath string | CacheDirNull | CacheDirFalse

record TeamDeskConfig =
  cfg_appId :: app_id
  cfg_token :: "string option"
  cfg_user :: "string option"
  cfg_password :: "string option"
  cfg_baseUrl :: "string option"
  cfg_debug :: "bool option"
  cfg_useBearerAuth :: "bool option"
  cfg_cacheDir :: "cache_dir_setting option"

text \<open>The field \<^verbatim>\<open>config\<close> of a \<^verbatim>\<open>TeamDeskClient\<close>, after the constructor.\<close>

record TeamDeskClient =
  appId :: string
  baseUrl :: string
  debug :: bool
  useBearerAuth :: bool
  token :: "string option"
  user :: "string option"
  password :: "string option"
  cacheDir :: "string option"

text \<open>Truthiness of an optional string: \<^verbatim>\<open>undefined\<close> and the empty string are falsy.\<close>

definition truthy_string :: "string option \<Rightarrow> bool" where
  "truthy_string s = (case s of Some t \<Rightarrow> t \<noteq> [] | None \<Rightarrow> False)"

text \<open>An optional string inside a template literal.\<close>

definition template_string :: "string option \<Rightarrow> string" where
  "template_string s = (case s of Some t \<Rightarrow> t | None \<Rightarrow> ''undefined'')"

text \<open>\<^verbatim>\<open>s.replace(/\/$/, "")\<close>: one trailing slash is removed.\<close>

definition remove_trailing_slash :: "string \<Rightarrow> string" where
  "remove_trailing_slash s = (if s \<noteq> [] \<and> last s = CHR ''/'' then butlast s else s)"

definition new_TeamDeskClient :: "(number \<Rightarrow> string) \<Rightarrow> TeamDeskConfig \<Rightarrow> exn + TeamDeskClient" where
  "new_TeamDeskClient S config =
     (if \<not> (case cfg_appId config of AppIdString s \<Rightarrow> s \<noteq> [] | AppIdNumber n \<Rightarrow> truthy_number n)
        then Inl (Error ''appId is required'')
      else if \<not> truthy_string (cfg_token config)
              \<and> \<not> (truthy_string (cfg_user config) \<and> truthy_string (cfg_password config))
        then Inl (Error ''Either token or both user and password must be provided'')
      else if (cfg_useBearerAuth config = Some True) \<and> \<not> truthy_string (cfg_token config)
        then Inl (Error
          ''useBearerAuth requires token to be provided (user/password not supported with Bearer auth)'')
      else Inr
        \<lparr>appId = (case cfg_appId config of AppIdString s \<Rightarrow> s | AppIdNumber n \<Rightarrow> S n),
         baseUrl = remove_trailing_slash
           (if truthy_string (cfg_baseUrl config) then the (cfg_baseUrl config)
            else ''https://www.teamdesk.net/secure/api/v2''),
         debug = (case cfg_debug config of Some b \<Rightarrow> b | None \<Rightarrow> False),
         useBearerAuth = (case cfg_useBearerAuth config of Some b \<Rightarrow> b | None \<Rightarrow> False),
         token = cfg_token config,
         user = cfg_user config,
         password = cfg_password config,
         cacheDir = (case cfg_cacheDir config of
                       Some CacheDirNull \<Rightarrow> None
                     | Some CacheDirFalse \<Rightarrow> None
                     | None \<Rightarrow> Some ''./_tdcache''
                     | Some (CacheDirPath p) \<Rightarrow> Some p)\<rparr>)"

definition buildUrl :: "TeamDeskClient \<Rightarrow> string \<Rightarrow> string" where
  "buildUrl config path =
     (let cleanPath = (case path of c # rest \<Rightarrow> if c = CHR ''/'' then rest else path | [] \<Rightarrow> path)
      in if useBearerAuth config
         then baseUrl config @ ''/'' @ appId config @ ''/'' @ cleanPath
         else
           (let authSegment =
                  (if truthy_string (token config) then the (token config)
                   else template_string (user config) @ '':'' @ template_string (password config))
            in baseUrl config @ ''/'' @ appId config @ ''/'' @ authSegment @ ''/'' @ cleanPath))"

text \<open>
  The headers \<^verbatim>\<open>request\<close> sends: the two defaults, overridden by the caller's own
  headers, and the \<^verbatim>\<open>Authorization\<close> header in bearer mode.
\<close>

definition request_headers :: "TeamDeskClient \<Rightarrow> (string \<rightharpoonup> string) \<Rightarrow> (string \<rightharpoonup> string)" where
  "request_headers config extra =
     (let headers = [''Accept'' \<mapsto> ''application/json'', ''Content-Type'' \<mapsto> ''application/json'']
                      ++ extra
      in if useBearerAuth config \<and> truthy_string (token config)
         then headers(''Authorization'' \<mapsto> ''Bearer '' @ the (token config))
         else headers)"

subsection \<open>\<^verbatim>\<open>client.ts\<close>: \<^verbatim>\<open>handleErrorResponse\<close>\<close>

text \<open>
  What \<^verbatim>\<open>handleErrorResponse\<close> reads of a \<^verbatim>\<open>Response\<close>: the status and its text,
  the headers, and what awaiting \<^verbatim>\<open>response.json()\<close> and \<^verbatim>\<open>response.text()\<close> gives,
  each of which may throw.
\<close>

record response =
  status :: int
  statusText :: string
  headers_get :: "string \<Rightarrow> string option"
  json_body :: "exn + json"
  text_body :: "exn + string"

text \<open>The nested \<^verbatim>\<open>try\<close>/\<^verbatim>\<open>catch\<close> that reads the body.\<close>

definition read_error_body :: "(number \<Rightarrow> string) \<Rightarrow> response \<Rightarrow> exn + json" where
  "read_error_body S r =
     (case json_body r of
        Inr body \<Rightarrow> Inr body
      | Inl e \<Rightarrow>
          (case text_body r of
             Inr body \<Rightarrow> Inr (JString body)
           | Inl e' \<Rightarrow> Inr (JString (''HTTP '' @ S (num (status r)) @ '' '' @ statusText r))))"

text \<open>The constructors of \<^verbatim>\<open>errors.ts\<close>, with the fields each of them sets.\<close>

definition new_AuthenticationError :: "string \<Rightarrow> int \<Rightarrow> string \<Rightarrow> teamdesk_error" where
  "new_AuthenticationError m st u =
     \<lparr>e_class = AuthenticationError, e_message = m, e_status = Some st, e_details = None,
      e_url = Some u, e_retryAfter = None\<rparr>"

definition new_NotFoundError :: "string \<Rightarrow> string \<Rightarrow> teamdesk_error" where
  "new_NotFoundError m u =
     \<lparr>e_class = NotFoundError, e_message = m, e_status = Some 404, e_details = None,
      e_url = Some u, e_retryAfter = None\<rparr>"

definition new_RateLimitError :: "string \<Rightarrow> number option \<Rightarrow> string \<Rightarrow> teamdesk_error" where
  "new_RateLimitError m ra u =
     \<lparr>e_class = RateLimitError, e_message = m, e_status = Some 429, e_details = None,
      e_url = Some u, e_retryAfter = ra\<rparr>"

definition new_ValidationError :: "string \<Rightarrow> int \<Rightarrow> ApiError list \<Rightarrow> string \<Rightarrow> teamdesk_error" where
  "new_ValidationError m st ds u =
     \<lparr>e_class = ValidationError, e_message = m, e_status = Some st, e_details = Some ds,
      e_url = Some u, e_retryAfter = None\<rparr>"

definition new_ServerError :: "string \<Rightarrow> int \<Rightarrow> string \<Rightarrow> teamdesk_error" where
  "new_ServerError m st u =
     \<lparr>e_class = ServerError, e_message = m, e_status = Some st, e_details = None,
      e_url = Some u, e_retryAfter = None\<rparr>"

definition new_TeamDeskError :: "string \<Rightarrow> int \<Rightarrow> ApiError list \<Rightarrow> string \<Rightarrow> teamdesk_error" where
  "new_TeamDeskError m st ds u =
     \<lparr>e_class = TeamDeskError, e_message = m, e_status = Some st, e_details = Some ds,
      e_url = Some u, e_retryAfter = None\<rparr>"

text \<open>
  \<^verbatim>\<open>handleErrorResponse\<close> never returns: its value here is what it throws. A failure
  of the body reading that escaped its \<^verbatim>\<open>try\<close> blocks would be thrown as it is.
\<close>

definition handleErrorResponse :: "(number \<Rightarrow> string) \<Rightarrow> response \<Rightarrow> string \<Rightarrow> exn" where
  "handleErrorResponse S r u =
     (case read_error_body S r of
        Inl e \<Rightarrow> e
      | Inr body \<Rightarrow>
          (let (message, errors) = parseErrorResponse S body in
           if status r = 401 \<or> status r = 403
             then Typed (new_AuthenticationError (''Authentication failed: '' @ message) (status r) u)
           else if status r = 404
             then Typed (new_NotFoundError (''Resource not found: '' @ message) u)
           else if status r = 429
             then (let retryAfter = headers_get r ''Retry-After''
                   in Typed (new_RateLimitError (''Rate limit exceeded: '' @ message)
                        (if truthy_string retryAfter then Some (parseInt (the retryAfter)) else None)
                        u))
           else if status r = 400 \<or> status r = 422
             then Typed (new_ValidationError (''Validation failed: '' @ message) (status r) errors u)
           else if status r \<ge> 500
             then Typed (new_ServerError (''Server error: '' @ message) (status r) u)
           else Typed (new_TeamDeskError (''Request failed: '' @ message) (status r) errors u)))"

subsection \<open>Decimal numerals\<close>

text \<open>
  The decimal numeral of a natural number, and a function that agrees with
  \<^verbatim>\<open>String(n)\<close> on the integers of magnitude below \<open>10\<^sup>2\<^sup>1\<close>, on the infinities and
  on NaN. It is the instance of the parameter \<open>S\<close> in the examples; on the other
  finite numbers it prints the integer part only and is not \<^verbatim>\<open>String\<close>.
\<close>

fun digits_of :: "nat \<Rightarrow> string" where
  "digits_of n =
     (if n < 10 then [char_of (48 + n)]
      else digits_of (n div 10) @ [char_of (48 + n mod 10)])"

declare digits_of.simps [simp del]

fun String_integer :: "number \<Rightarrow> string" where
  "String_integer (Finite q) =
     (if q < 0 then ''-'' @ digits_of (nat (- \<lfloor>q\<rfloor>)) else digits_of (nat \<lfloor>q\<rfloor>))"
| "String_integer PosInfinity = ''Infinity''"
| "String_integer NegInfinity = ''-Infinity''"
| "String_integer NaN = ''NaN''"

subsection \<open>The table of the error classifier\<close>

text \<open>
  The status-to-variant table of the specification (section 4.3), as a function, and
  the prefix \<^verbatim>\<open>handleErrorResponse\<close> puts before the message of each class.
\<close>

definition variant_of_status :: "int \<Rightarrow> error_class" where
  "variant_of_status st =
     (if st = 401 \<or> st = 403 then AuthenticationError
      else if st = 404 then NotFoundError
      else if st = 429 then RateLimitError
      else if st = 400 \<or> st = 422 then ValidationError
      else if st \<ge> 500 then ServerError
      else TeamDeskError)"

fun message_prefix :: "error_class \<Rightarrow> string" where
  "message_prefix AuthenticationError = ''Authentication failed: ''"
| "message_prefix NotFoundError = ''Resource not found: ''"
| "message_prefix RateLimitError = ''Rate limit exceeded: ''"
| "message_prefix ValidationError = ''Validation failed: ''"
| "message_prefix ServerError = ''Server error: ''"
| "message_prefix TeamDeskError = ''Request failed: ''"

subsection \<open>Bodies without the structured error format\<close>

text \<open>
  A body has the structured error format when it parses as a JSON object with an
  \<^verbatim>\<open>errors\<close> array or a \<^verbatim>\<open>message\<close> field. For the other bodies, \<open>best_effort_message\<close>
  is the message that is left: the body itself when it is a bare string, or text
  that could be read after the JSON parse failed; \<^verbatim>\<open>HTTP <status> <statusText>\<close> when
  nothing could be read; \<^verbatim>\<open>Unknown error\<close> for any other JSON value.
\<close>

definition structured_body :: "response \<Rightarrow> bool" where
  "structured_body r =
     (case json_body r of
        Inr (JObject kvs) \<Rightarrow>
          (case map_of kvs ''errors'' of
             Some (JArray errs) \<Rightarrow> True
           | _ \<Rightarrow> map_of kvs ''message'' \<noteq> None)
      | _ \<Rightarrow> False)"

definition best_effort_message :: "(number \<Rightarrow> string) \<Rightarrow> response \<Rightarrow> string" where
  "best_effort_message S r =
     (case json_body r of
        Inl e \<Rightarrow>
          (case text_body r of
             Inr t \<Rightarrow> t
           | Inl e' \<Rightarrow> ''HTTP '' @ S (num (status r)) @ '' '' @ statusText r)
      | Inr (JString s) \<Rightarrow> s
      | Inr other \<Rightarrow> ''Unknown error'')"

text \<open>The class of what was thrown, when it belongs to the typed hierarchy.\<close>

fun thrown_class :: "exn \<Rightarrow> error_class option" where
  "thrown_class (Typed e) = Some (e_class e)"
| "thrown_class (Error m) = None"

subsection \<open>Example responses\<close>

text \<open>
  A 429 response with the header \<^verbatim>\<open>Retry-After: 30\<close> and a 404 response, both with a
  body that is not JSON and cannot be read as text after the failed parse.
\<close>

definition no_body :: "response \<Rightarrow> response" where
  "no_body r =
     r\<lparr>json_body := Inl (Error ''Unexpected token < in JSON''),
       text_body := Inl (Error ''Body already consumed'')\<rparr>"


definition not_found_unparseable :: response where
  "not_found_unparseable =
     no_body \<lparr>status = 404, statusText = ''Not Found'',
              headers_get = Map.empty,
              json_body = Inr JNull, text_body = Inr ''''\<rparr>"

subsection \<open>\<^verbatim>\<open>table.ts\<close>: builder objects in a store\<close>

text \<open>
  A \<^verbatim>\<open>SelectBuilder\<close> holds a reference to its \<^verbatim>\<open>options\<close> object and its methods
  write through that reference, so builders and options objects live in a store:
  an address is an index into the list of the objects allocated so far, and
  allocation appends. The arrays of column names are never written by the library and
  are kept as values.
\<close>

type_synonym addr = nat

record SelectBuilder =
  client :: TeamDeskClient
  tableName :: string
  options :: addr

record heap =
  builders :: "SelectBuilder list"
  option_objs :: "SelectOptions list"

text \<open>\<^verbatim>\<open>this.options\<close> of the builder at the address \<open>this\<close>.\<close>

definition this_options :: "heap \<Rightarrow> addr \<Rightarrow> SelectOptions" where
  "this_options h this = option_objs h ! options (builders h ! this)"

text \<open>A builder of the store whose \<^verbatim>\<open>options\<close> reference points into the store.\<close>

definition valid_builder :: "heap \<Rightarrow> addr \<Rightarrow> bool" where
  "valid_builder h this =
     (this < length (builders h) \<and> options (builders h ! this) < length (option_objs h))"

text \<open>A write to a field of \<^verbatim>\<open>this.options\<close>.\<close>

definition update_options :: "addr \<Rightarrow> (SelectOptions \<Rightarrow> SelectOptions) \<Rightarrow> heap \<Rightarrow> heap" where
  "update_options this f h =
     h\<lparr>option_objs := (option_objs h)[options (builders h ! this) := f (this_options h this)]\<rparr>"

text \<open>
  \<^verbatim>\<open>new SelectBuilder(client, tableName, columns)\<close>: the field initializer allocates
  the object \<^verbatim>\<open>{}\<close>, the constructor stores a non-empty column list in it. The result
  is the address of the new builder and the new store.
\<close>

definition new_SelectBuilder ::
  "TeamDeskClient \<Rightarrow> string \<Rightarrow> string list option \<Rightarrow> heap \<Rightarrow> addr \<times> heap" where
  "new_SelectBuilder cl tn cols h =
     (let opts_addr = length (option_objs h);
          h1 = h\<lparr>option_objs := option_objs h @ [empty_options]\<rparr>;
          this = length (builders h1);
          h2 = h1\<lparr>builders := builders h1 @ [\<lparr>client = cl, tableName = tn, options = opts_addr\<rparr>]\<rparr>
      in (this,
          (case cols of
             Some cs \<Rightarrow>
               if length cs > 0 then update_options this (\<lambda>opts. opts\<lparr>columns := Some cs\<rparr>) h2
               else h2
           | None \<Rightarrow> h2)))"

text \<open>
  The chained methods. Each returns \<^verbatim>\<open>this\<close>; the value here is the store after the
  call, or what the method throws. None of them has access to the transport.
\<close>

definition SelectBuilder_filter :: "addr \<Rightarrow> string \<Rightarrow> heap \<Rightarrow> heap" where
  "SelectBuilder_filter this filterExpression h =
     update_options this (\<lambda>opts. opts\<lparr>filter_expr := Some filterExpression\<rparr>) h"

definition SelectBuilder_sort :: "addr \<Rightarrow> string \<Rightarrow> direction option \<Rightarrow> heap \<Rightarrow> heap" where
  "SelectBuilder_sort this col dir h =
     update_options this
       (\<lambda>opts. opts\<lparr>sortColumn := Some col,
                     sortDirection := Some (case dir of Some d \<Rightarrow> d | None \<Rightarrow> ASC)\<rparr>) h"



text \<open>
  \<^verbatim>\<open>execute\<close>. The transport \<^verbatim>\<open>client.request<T[]>(url)\<close> is a parameter: given the
  URL and the state of the outside world it returns the decoded records or what it
  throws, and the new state of the world.
\<close>

definition select_url :: "(number \<Rightarrow> string) \<Rightarrow> TeamDeskClient \<Rightarrow> string \<Rightarrow> SelectOptions \<Rightarrow> string" where
  "select_url S cl tn opts =
     (let encodedTable = encodeTableName tn;
          queryParams = buildQueryParams S opts
      in buildUrl cl (encodedTable @ ''/select.json'' @ queryParams))"

definition SelectBuilder_execute ::
  "(number \<Rightarrow> string) \<Rightarrow> (string \<Rightarrow> 'w \<Rightarrow> (exn + 'r list) \<times> 'w) \<Rightarrow> addr \<Rightarrow> heap \<Rightarrow> 'w
     \<Rightarrow> (exn + 'r list) \<times> 'w" where
  "SelectBuilder_execute S request this h w =
     request (select_url S (client (builders h ! this)) (tableName (builders h ! this))
                (this_options h this)) w"


subsection \<open>\<^verbatim>\<open>table.ts\<close>: the generator \<^verbatim>\<open>selectAll\<close>\<close>

text \<open>
  The generator object is a state machine that is advanced by \<^verbatim>\<open>next()\<close>: it has
  not started, or it is suspended at \<^verbatim>\<open>yield batch\<close> with its locals \<open>offset\<close> and
  \<open>batch\<close>, or it has completed. A call of \<^verbatim>\<open>next()\<close> yields a page, returns (the
  sequence is over) or throws.
\<close>

datatype 'r generator_state =
    NotStarted
  | SuspendedAtYield number "'r list"
  | Completed

datatype 'r iterator_result =
    Yield "'r list"
  | Return
  | Throw exn

definition batchSize :: nat where
  "batchSize = 500"

text \<open>\<^verbatim>\<open>this.options.skip || 0\<close>.\<close>

definition initial_offset :: "SelectOptions \<Rightarrow> number" where
  "initial_offset opts =
     (case skip opts of Some k \<Rightarrow> if truthy_number k then k else num 0 | None \<Rightarrow> num 0)"

text \<open>The object \<^verbatim>\<open>{ ...this.options, skip: offset, top: batchSize }\<close>.\<close>

definition page_options :: "SelectOptions \<Rightarrow> number \<Rightarrow> SelectOptions" where
  "page_options opts offset = opts\<lparr>skip := Some offset, top_n := Some (num (int batchSize))\<rparr>"

text \<open>
  One turn of the \<^verbatim>\<open>while (true)\<close> loop, from its head to the \<^verbatim>\<open>break\<close> or the
  \<^verbatim>\<open>yield\<close>: a new builder is constructed, its \<^verbatim>\<open>options\<close> field is pointed to a new
  object \<^verbatim>\<open>{ ...this.options, skip: offset, top: batchSize }\<close>, and it is executed.
\<close>

definition selectAll_iteration ::
  "(number \<Rightarrow> string) \<Rightarrow> (string \<Rightarrow> 'w \<Rightarrow> (exn + 'r list) \<times> 'w) \<Rightarrow> addr \<Rightarrow> number \<Rightarrow> heap \<Rightarrow> 'w
     \<Rightarrow> ('r generator_state \<times> 'r iterator_result) \<times> heap \<times> 'w" where
  "selectAll_iteration S request this offset h w =
     (let (builder, h1) =
            new_SelectBuilder (client (builders h ! this)) (tableName (builders h ! this))
              (columns (this_options h this)) h;
          copy_addr = length (option_objs h1);
          h2 = h1\<lparr>option_objs := option_objs h1 @ [page_options (this_options h1 this) offset]\<rparr>;
          h3 = h2\<lparr>builders := (builders h2)[builder := (builders h2 ! builder)\<lparr>options := copy_addr\<rparr>]\<rparr>;
          (result, w') = SelectBuilder_execute S request builder h3 w
      in case result of
           Inl e \<Rightarrow> ((Completed, Throw e), h3, w')
         | Inr batch \<Rightarrow>
             if length batch = 0 then ((Completed, Return), h3, w')
             else ((SuspendedAtYield offset batch, Yield batch), h3, w'))"

definition selectAll_next ::
  "(number \<Rightarrow> string) \<Rightarrow> (string \<Rightarrow> 'w \<Rightarrow> (exn + 'r list) \<times> 'w) \<Rightarrow> addr \<Rightarrow> 'r generator_state
     \<Rightarrow> heap \<Rightarrow> 'w \<Rightarrow> ('r generator_state \<times> 'r iterator_result) \<times> heap \<times> 'w" where
  "selectAll_next S request this st h w =
     (case st of
        NotStarted \<Rightarrow>
          selectAll_iteration S request this (initial_offset (this_options h this)) h w
      | SuspendedAtYield offset batch \<Rightarrow>
          if length batch < batchSize then ((Completed, Return), h, w)
          else selectAll_iteration S request this (js_add offset (num (int batchSize))) h w
      | Completed \<Rightarrow> ((Completed, Return), h, w))"

text \<open>
  The URL of the page at an offset, for the builder at \<open>this\<close>: the URL that
  \<^verbatim>\<open>execute\<close> builds from the intent of that builder with \<^verbatim>\<open>skip\<close> and \<^verbatim>\<open>top\<close>
  overridden.
\<close>

definition page_url :: "(number \<Rightarrow> string) \<Rightarrow> heap \<Rightarrow> addr \<Rightarrow> number \<Rightarrow> string" where
  "page_url S h this offset =
     select_url S (client (builders h ! this)) (tableName (builders h ! this))
       (page_options (this_options h this) offset)"

text \<open>
  A consumer \<^verbatim>\<open>for await (const batch of ...selectAll())\<close> that collects the pages: it
  calls \<^verbatim>\<open>next()\<close> until the generator returns or throws. The loop need not end (a
  backend may answer every request with a full page), so the consumer is given a
  number of calls it may make; \<open>None\<close> says that this number did not suffice.
\<close>

fun collect_pages ::
  "nat \<Rightarrow> (number \<Rightarrow> string) \<Rightarrow> (string \<Rightarrow> 'w \<Rightarrow> (exn + 'r list) \<times> 'w) \<Rightarrow> addr \<Rightarrow> 'r generator_state
     \<Rightarrow> heap \<Rightarrow> 'w \<Rightarrow> ((exn + 'r list list) \<times> heap \<times> 'w) option" where
  "collect_pages 0 S request this st h w = None"
| "collect_pages (Suc fuel) S request this st h w =
     (case selectAll_next S request this st h w of
        ((st', Yield batch), h', w') \<Rightarrow>
          (case collect_pages fuel S request this st' h' w' of
             Some (Inr pages, hw) \<Rightarrow> Some (Inr (batch # pages), hw)
           | other \<Rightarrow> other)
      | ((st', Return), h', w') \<Rightarrow> Some (Inr [], h', w')
      | ((st', Throw e), h', w') \<Rightarrow> Some (Inl e, h', w'))"

text \<open>
  The store after one turn of the loop of \<^verbatim>\<open>selectAll\<close> at an offset: one more
  builder, with the client and the table of the builder at \<open>this\<close>, and two more
  options objects, the one made by the field initializer and the constructor, and
  the copy that the new builder is pointed to.
\<close>

definition iteration_heap :: "heap \<Rightarrow> addr \<Rightarrow> number \<Rightarrow> heap" where
  "iteration_heap h this offset =
     \<lparr>builders = builders h @
        [\<lparr>client = client (builders h ! this), tableName = tableName (builders h ! this),
          options = Suc (length (option_objs h))\<rparr>],
      option_objs = option_objs h @
        [case columns (this_options h this) of
           Some cs \<Rightarrow> if length cs > 0 then empty_options\<lparr>columns := Some cs\<rparr> else empty_options
         | None \<Rightarrow> empty_options,
         page_options (this_options h this) offset]\<rparr>"

subsection \<open>An example client, store and backend\<close>

text \<open>
  A client in bearer mode, a store with one builder on the table \<^verbatim>\<open>Orders\<close> whose
  intent has \<^verbatim>\<open>top = 3\<close>, and a transport whose world is the list of the URLs
  requested so far: it answers the first request with 500 records, the second with 137
  and every later one with none.
\<close>

definition example_client :: TeamDeskClient where
  "example_client =
     \<lparr>appId = ''15331'', baseUrl = ''https://www.teamdesk.net/secure/api/v2'', debug = False,
      useBearerAuth = True, token = Some ''secret'', user = None, password = None,
      cacheDir = Some ''./_tdcache''\<rparr>"

definition example_heap :: heap where
  "example_heap =
     \<lparr>builders = [\<lparr>client = example_client, tableName = ''Orders'', options = 0\<rparr>],
      option_objs = [empty_options\<lparr>top_n := Some (num 3)\<rparr>]\<rparr>"

definition example_backend :: "string \<Rightarrow> string list \<Rightarrow> (exn + nat list) \<times> string list" where
  "example_backend u seen =
     (if length seen = 0 then Inr (replicate 500 0)
      else if length seen = 1 then Inr (replicate 137 1)
      else Inr [],
      seen @ [u])"

subsection \<open>\<^verbatim>\<open>table.ts\<close>: the write operations\<close>

text \<open>
  An entry of the array the backend answers a write with
  (\<^verbatim>\<open>{ status: number; id?: number; key?: string }\<close>), and the results built from it:
  \<^verbatim>\<open>CreateResult\<close> and \<^verbatim>\<open>UpdateResult\<close> have the same fields, \<^verbatim>\<open>UpsertResult\<close> has
  \<^verbatim>\<open>action\<close> in addition. The object \<^verbatim>\<open>data\<close> is the list of its properties.
\<close>

record raw_result =
  raw_status :: number
  raw_id :: "number option"
  raw_key :: "string option"

record write_result =
  success :: bool
  result_status :: number
  result_data :: "(string \<times> json) list"
  result_id :: "number option"
  result_key :: "string option"
  result_errors :: "ApiError list"

datatype upsert_action = created | updated

record upsert_result = write_result +
  action :: upsert_action

text \<open>The function given to \<^verbatim>\<open>rawResults.map\<close> by \<^verbatim>\<open>create\<close> and by \<^verbatim>\<open>update\<close>.\<close>

definition write_result_of :: "raw_result \<Rightarrow> write_result" where
  "write_result_of result =
     \<lparr>success = (js_ge (raw_status result) (num 200) \<and> js_lt (raw_status result) (num 300)),
      result_status = raw_status result,
      result_data = [],
      result_id = raw_id result,
      result_key = raw_key result,
      result_errors = []\<rparr>"

text \<open>The function given to \<^verbatim>\<open>rawResults.map\<close> by \<^verbatim>\<open>upsert\<close>.\<close>

definition upsert_result_of :: "raw_result \<Rightarrow> upsert_result" where
  "upsert_result_of result =
     \<lparr>success = (js_ge (raw_status result) (num 200) \<and> js_lt (raw_status result) (num 300)),
      result_status = raw_status result,
      result_data = [],
      result_id = raw_id result,
      result_key = raw_key result,
      result_errors = [],
      action = (if raw_status result = num 201 then created else updated)\<rparr>"

text \<open>
  A \<^verbatim>\<open>TableClient\<close> has a client and a table name, and never changes. The transport
  of the write operations, \<^verbatim>\<open>client.request(url, { method: "POST", body })\<close>, is a
  parameter as before; so is \<^verbatim>\<open>JSON.stringify\<close> on the records, called \<open>J\<close>. The
  option \<^verbatim>\<open>workflow\<close> is absent, true or false.
\<close>

record TableClient =
  tc_client :: TeamDeskClient
  tc_tableName :: string

definition workflow_param :: "bool option \<Rightarrow> string \<times> param_value" where
  "workflow_param workflow = (''workflow'', PNumber (if workflow \<noteq> Some False then num 1 else num 0))"

text \<open>The URL of a write operation, with the parameters given to \<^verbatim>\<open>buildQueryString\<close>.\<close>

definition write_url ::
  "(number \<Rightarrow> string) \<Rightarrow> TableClient \<Rightarrow> string \<Rightarrow> (string \<times> param_value) list \<Rightarrow> string" where
  "write_url S this operation params =
     (let encodedTable = encodeTableName (tc_tableName this);
          queryParams = buildQueryString S params
      in buildUrl (tc_client this) (encodedTable @ ''/'' @ operation @ ''.json'' @ queryParams))"

definition TableClient_create ::
  "(number \<Rightarrow> string) \<Rightarrow> ('rec list \<Rightarrow> string)
     \<Rightarrow> (string \<Rightarrow> string \<Rightarrow> string \<Rightarrow> 'w \<Rightarrow> (exn + raw_result list) \<times> 'w)
     \<Rightarrow> TableClient \<Rightarrow> 'rec list \<Rightarrow> bool option \<Rightarrow> 'w \<Rightarrow> (exn + write_result list) \<times> 'w" where
  "TableClient_create S J request this records workflow w =
     (let u = write_url S this ''create'' [workflow_param workflow];
          (res, w') = request u ''POST'' (J records) w
      in case res of
           Inl e \<Rightarrow> (Inl e, w')
         | Inr rawResults \<Rightarrow> (Inr (map write_result_of rawResults), w'))"

definition TableClient_update ::
  "(number \<Rightarrow> string) \<Rightarrow> ('rec list \<Rightarrow> string)
     \<Rightarrow> (string \<Rightarrow> string \<Rightarrow> string \<Rightarrow> 'w \<Rightarrow> (exn + raw_result list) \<times> 'w)
     \<Rightarrow> TableClient \<Rightarrow> 'rec list \<Rightarrow> bool option \<Rightarrow> 'w \<Rightarrow> (exn + write_result list) \<times> 'w" where
  "TableClient_update S J request this records workflow w =
     (let u = write_url S this ''update'' [workflow_param workflow];
          (res, w') = request u ''POST'' (J records) w
      in case res of
           Inl e \<Rightarrow> (Inl e, w')
         | Inr rawResults \<Rightarrow> (Inr (map write_result_of rawResults), w'))"

text \<open>\<^verbatim>\<open>...(matchColumn && { match: matchColumn })\<close>: no key for a falsy match column.\<close>

definition upsert_params :: "string option \<Rightarrow> bool option \<Rightarrow> (string \<times> param_value) list" where
  "upsert_params matchColumn workflow =
     (if truthy_string matchColumn then [(''match'', PString (the matchColumn))] else [])
     @ [workflow_param workflow]"

definition TableClient_upsert ::
  "(number \<Rightarrow> string) \<Rightarrow> ('rec list \<Rightarrow> string)
     \<Rightarrow> (string \<Rightarrow> string \<Rightarrow> string \<Rightarrow> 'w \<Rightarrow> (exn + raw_result list) \<times> 'w)
     \<Rightarrow> TableClient \<Rightarrow> 'rec list \<Rightarrow> string option \<Rightarrow> bool option \<Rightarrow> 'w
     \<Rightarrow> (exn + upsert_result list) \<times> 'w" where
  "TableClient_upsert S J request this records matchColumn workflow w =
     (let u = write_url S this ''upsert'' (upsert_params matchColumn workflow);
          (res, w') = request u ''POST'' (J records) w
      in case res of
           Inl e \<Rightarrow> (Inl e, w')
         | Inr rawResults \<Rightarrow> (Inr (map upsert_result_of rawResults), w'))"

text \<open>
  An example: a backend that answers every write with a created, a failed and an
  updated entry.
\<close>

definition example_raw_results :: "raw_result list" where
  "example_raw_results =
     [\<lparr>raw_status = num 201, raw_id = Some (num 7), raw_key = Some ''K7''\<rparr>,
      \<lparr>raw_status = num 400, raw_id = None, raw_key = None\<rparr>,
      \<lparr>raw_status = num 200, raw_id = Some (num 8), raw_key = None\<rparr>]"

definition example_write_backend ::
  "string \<Rightarrow> string \<Rightarrow> string \<Rightarrow> nat \<Rightarrow> (exn + raw_result list) \<times> nat" where
  "example_write_backend u method body w = (Inr example_raw_results, Suc w)"

definition example_table :: TableClient where
  "example_table = \<lparr>tc_client = example_client, tc_tableName = ''Contacts''\<rparr>"

subsection \<open>\<^verbatim>\<open>cache.ts\<close>: the disk cache\<close>

text \<open>
  The disk, as far as the cache functions read and write it. A file has its content,
  represented by the value that \<^verbatim>\<open>JSON.parse\<close> gives for it (\<open>None\<close> when the
  content is not JSON), and its modification time in milliseconds (\<^verbatim>\<open>stat.mtime\<close> may
  be null). \<open>mkdir_error\<close> and \<open>write_error\<close> say what \<^verbatim>\<open>Deno.mkdir\<close> and
  \<^verbatim>\<open>Deno.writeTextFile\<close> throw, if they fail; \<open>now\<close> is the clock \<^verbatim>\<open>Date.now()\<close>.
\<close>

record cache_file =
  parsed :: "json option"
  mtime :: "int option"

record disk =
  files :: "string \<rightharpoonup> cache_file"
  mkdir_error :: "exn option"
  write_error :: "exn option"
  now :: int

text \<open>
  What \<^verbatim>\<open>JSON.parse(JSON.stringify(data, null, 2))\<close> gives for a JSON value: a number
  that is not finite is written as \<^verbatim>\<open>null\<close>.
\<close>

fun stored_json :: "json \<Rightarrow> json" where
  "stored_json (JNumber n) = (case n of Finite q \<Rightarrow> JNumber n | _ \<Rightarrow> JNull)"
| "stored_json (JArray xs) = JArray (map stored_json xs)"
| "stored_json (JObject kvs) = JObject (map (\<lambda>(k, v). (k, stored_json v)) kvs)"
| "stored_json v = v"

definition cache_path :: "string \<Rightarrow> string \<Rightarrow> string" where
  "cache_path dir key = dir @ ''/'' @ key @ ''.json''"

definition saveToCache :: "string \<Rightarrow> string \<Rightarrow> json \<Rightarrow> disk \<Rightarrow> (exn + unit) \<times> disk" where
  "saveToCache dir key data d =
     (case mkdir_error d of
        Some e \<Rightarrow> (Inl e, d)
      | None \<Rightarrow>
          (let filePath = cache_path dir key in
           case write_error d of
             Some e \<Rightarrow> (Inl e, d)
           | None \<Rightarrow>
               (Inr (),
                d\<lparr>files := (files d)(filePath \<mapsto> \<lparr>parsed = Some (stored_json data),
                                                     mtime = Some (now d)\<rparr>)\<rparr>)))"

text \<open>
  \<^verbatim>\<open>loadFromCache\<close>: \<^verbatim>\<open>null\<close> when the file cannot be read or parsed. The value
  \<^verbatim>\<open>null\<close> is \<^const>\<open>JNull\<close>.
\<close>

definition loadFromCache :: "string \<Rightarrow> string \<Rightarrow> disk \<Rightarrow> json" where
  "loadFromCache dir key d =
     (case files d (cache_path dir key) of
        None \<Rightarrow> JNull
      | Some f \<Rightarrow> (case parsed f of None \<Rightarrow> JNull | Some v \<Rightarrow> v))"

record cache_info =
  ageInMinutes :: number
  modifiedAt :: int

definition getCacheInfo :: "string \<Rightarrow> string \<Rightarrow> disk \<Rightarrow> cache_info option" where
  "getCacheInfo dir key d =
     (case files d (cache_path dir key) of
        None \<Rightarrow> None
      | Some f \<Rightarrow>
          (let modified = (case mtime f of Some t \<Rightarrow> t | None \<Rightarrow> now d)
           in Some \<lparr>ageInMinutes = Finite (of_int (now d - modified) / 1000 / 60),
                    modifiedAt = modified\<rparr>))"

record cache_result =
  data :: json
  fromCache :: bool
  cacheAge :: "number option"

text \<open>
  \<^verbatim>\<open>fetchWithCache\<close>. The fetcher is a function of the world, here the disk, that
  returns the data or what it throws. \<open>fetch_fallback\<close> is the \<^verbatim>\<open>catch\<close> block; it is
  entered with what the \<^verbatim>\<open>try\<close> block threw, by the fetcher or by \<^verbatim>\<open>saveToCache\<close>.
\<close>

definition fetch_fallback :: "string \<Rightarrow> string \<Rightarrow> exn \<Rightarrow> disk \<Rightarrow> (exn + cache_result) \<times> disk" where
  "fetch_fallback dir key error d =
     (let cached = loadFromCache dir key d in
      if json_truthy cached
      then (let cacheInfo = getCacheInfo dir key d
            in (Inr \<lparr>data = cached, fromCache = True,
                     cacheAge = map_option ageInMinutes cacheInfo\<rparr>, d))
      else (Inl error, d))"

definition fetchWithCache ::
  "string \<Rightarrow> string \<Rightarrow> (disk \<Rightarrow> (exn + json) \<times> disk) \<Rightarrow> disk \<Rightarrow> (exn + cache_result) \<times> disk" where
  "fetchWithCache dir key fetcher d =
     (case fetcher d of
        (Inl error, d1) \<Rightarrow> fetch_fallback dir key error d1
      | (Inr fetched, d1) \<Rightarrow>
          (case saveToCache dir key fetched d1 of
             (Inl error, d2) \<Rightarrow> fetch_fallback dir key error d2
           | (Inr u, d2) \<Rightarrow> (Inr \<lparr>data = fetched, fromCache = False, cacheAge = None\<rparr>, d2)))"

subsection \<open>Example disks and fetchers\<close>

text \<open>
  A fetcher that fails and one that succeeds; a disk whose snapshot for the key
  \<^verbatim>\<open>count\<close> is the number 0, written a minute ago; a disk that cannot be written and
  has an older snapshot for the key \<^verbatim>\<open>orders\<close>.
\<close>

definition failing_fetcher :: "disk \<Rightarrow> (exn + json) \<times> disk" where
  "failing_fetcher d = (Inl (Error ''API unavailable''), d)"

definition fresh_orders :: json where
  "fresh_orders = JArray [JObject [(''OrderID'', JNumber (num 2))]]"

definition stale_orders :: json where
  "stale_orders = JArray [JObject [(''OrderID'', JNumber (num 1))]]"

definition succeeding_fetcher :: "disk \<Rightarrow> (exn + json) \<times> disk" where
  "succeeding_fetcher d = (Inr fresh_orders, d)"

definition disk_with_zero :: disk where
  "disk_with_zero =
     \<lparr>files = [''./_tdcache/count.json'' \<mapsto> \<lparr>parsed = Some (JNumber (num 0)), mtime = Some 1000\<rparr>],
      mkdir_error = None, write_error = None, now = 61000\<rparr>"

definition read_only_disk :: disk where
  "read_only_disk =
     \<lparr>files = [''./_tdcache/orders.json'' \<mapsto> \<lparr>parsed = Some stale_orders, mtime = Some 1000\<rparr>],
      mkdir_error = None, write_error = Some (Error ''PermissionDenied''), now = 61000\<rparr>"

section \<open>Properties\<close>

subsection \<open>Percent-encoding and query strings\<close>

lemma unhex_hex_all: "\<forall>n\<in>set [0..<16]. unhex (hex_digit n) = Some n"
  by code_simp

lemma unhex_hex: "n < 16 \<Longrightarrow> unhex (hex_digit n) = Some n"
  using unhex_hex_all by simp

lemma decode_encode_byte:
  "percent_decode (encode_byte c @ rest) = map_option ((#) c) (percent_decode rest)"
proof (cases "unreserved c")
  case True
  then have "c \<noteq> CHR ''%''" by (auto simp: unreserved_def)
  with True show ?thesis by (simp add: encode_byte_def)
next
  case False
  have lt: "(of_char c :: nat) < 256" by simp
  have a: "(of_char c :: nat) div 16 < 16" using lt by linarith
  have b: "(of_char c :: nat) mod 16 < 16" by simp
  have "char_of (16 * ((of_char c :: nat) div 16) + of_char c mod 16) = c"
    by simp
  with False show ?thesis
    by (simp add: encode_byte_def unhex_hex[OF a] unhex_hex[OF b])
qed

lemma decode_encode_append:
  "percent_decode (encodeURIComponent s @ rest) = map_option ((@) s) (percent_decode rest)"
  by (induction s) (simp_all add: encodeURIComponent_def decode_encode_byte option.map_comp comp_def option.map_ident)

lemma decode_encode: "percent_decode (encodeURIComponent s) = Some s"
  using decode_encode_append[of s "[]"] by simp

lemma hex_digit_plain: "hex_digit n \<noteq> CHR ''&'' \<and> hex_digit n \<noteq> CHR ''=''"
proof -
  have "n mod 16 \<in> set [0..<16]" by simp
  moreover have "\<forall>k\<in>set [0..<16]. hex_digit k \<noteq> CHR ''&'' \<and> hex_digit k \<noteq> CHR ''=''"
    by code_simp
  moreover have "hex_digit n = hex_digit (n mod 16)" by (simp add: hex_digit_def)
  ultimately show ?thesis by metis
qed

lemma encode_byte_plain: "d \<in> set (encode_byte c) \<Longrightarrow> d \<noteq> CHR ''&'' \<and> d \<noteq> CHR ''=''"
  using hex_digit_plain by (auto simp: encode_byte_def unreserved_def split: if_splits)

lemma encode_plain: "d \<in> set (encodeURIComponent s) \<Longrightarrow> d \<noteq> CHR ''&'' \<and> d \<noteq> CHR ''=''"
  using encode_byte_plain by (auto simp: encodeURIComponent_def)

lemma encode_no_amp: "CHR ''&'' \<notin> set (encodeURIComponent s)"
  using encode_plain by blast

lemma encode_no_eq: "CHR ''='' \<notin> set (encodeURIComponent s)"
  using encode_plain by blast

lemma parse_pair_encoded:
  "parse_pair (encodeURIComponent k @ CHR ''='' # encodeURIComponent v) = Some (k, v)"
proof -
  have k: "\<And>c. c \<in> set (encodeURIComponent k) \<Longrightarrow> c \<noteq> CHR ''=''"
    using encode_no_eq by blast
  have t: "takeWhile (\<lambda>c. c \<noteq> CHR ''='') (encodeURIComponent k @ CHR ''='' # encodeURIComponent v)
             = encodeURIComponent k"
    using k by (simp add: takeWhile_tail)
  have d: "dropWhile (\<lambda>c. c \<noteq> CHR ''='') (encodeURIComponent k @ CHR ''='' # encodeURIComponent v)
             = CHR ''='' # encodeURIComponent v"
    using k by simp
  show ?thesis unfolding parse_pair_def t d by (simp add: decode_encode)
qed

lemma split_on_append:
  "d \<notin> set p \<Longrightarrow> split_on d (p @ d # rest) = p # split_on d rest"
  by (induction p) auto

lemma split_on_single: "d \<notin> set p \<Longrightarrow> split_on d p = [p]"
  by (induction p) auto

lemma split_join:
  "ps \<noteq> [] \<Longrightarrow> \<forall>p\<in>set ps. d \<notin> set p \<Longrightarrow> split_on d (join [d] ps) = ps"
proof (induction "[d]" ps rule: join.induct)
  case 1
  then show ?case by simp
next
  case (2 p)
  then show ?case by (simp add: split_on_single)
next
  case (3 p q ps)
  then show ?case by (simp add: split_on_append)
qed

lemma those_map_Some: "those (map Some xs) = Some xs"
  by (induction xs) simp_all


lemma entry_parts_parse:
  "map parse_pair (entry_parts S e) = map Some (entry_pairs S e)"
  by (cases "(S, e)" rule: entry_parts.cases) (simp_all add: parse_pair_encoded)

lemma entry_parts_plain: "p \<in> set (entry_parts S e) \<Longrightarrow> CHR ''&'' \<notin> set p"
  by (cases "(S, e)" rule: entry_parts.cases) (auto simp: encode_no_amp)

lemma parse_buildQueryString:
  "parse_query (buildQueryString S params) = Some (concat (map (entry_pairs S) params))"
proof (cases "concat (map (entry_parts S) params) = []")
  case True
  then have "\<forall>e\<in>set params. entry_parts S e = []" by simp
  then have "\<forall>e\<in>set params. entry_pairs S e = []"
    using entry_parts_parse by (metis map_is_Nil_conv)
  then have "concat (map (entry_pairs S) params) = []" by simp
  with True show ?thesis by (simp add: buildQueryString_def parse_query_def)
next
  case False
  let ?parts = "concat (map (entry_parts S) params)"
  have plain: "\<forall>p\<in>set ?parts. CHR ''&'' \<notin> set p"
    using entry_parts_plain by auto
  have "split_on CHR ''&'' (join ''&'' ?parts) = ?parts"
    using split_join[OF False plain] .
  moreover have "map parse_pair ?parts = map Some (concat (map (entry_pairs S) params))"
    by (simp add: map_concat comp_def entry_parts_parse)
  ultimately show ?thesis
    using False by (simp add: buildQueryString_def parse_query_def those_map_Some)
qed

lemma encode_column_key: "encodeURIComponent ''column'' = ''column''"
  by (simp add: encodeURIComponent_def encode_byte_def unreserved_def)

lemma column_entry_parts:
  "entry_parts S (''column'', PArray cs) = map (\<lambda>c. ''column='' @ encodeURIComponent c) cs"
  by (simp add: encode_column_key)

lemma column_parts_first:
  assumes "columns opts = Some cs" and "cs \<noteq> []"
  shows "\<exists>rest. buildQueryParams S opts =
           ''?'' @ join ''&'' (map (\<lambda>c. ''column='' @ encodeURIComponent c) cs @ rest)"
proof -
  obtain ps where ps: "buildQueryParams S opts = buildQueryString S ((''column'', PArray cs) # ps)"
    using assms by (simp add: buildQueryParams_def)
  have "buildQueryString S ((''column'', PArray cs) # ps) =
          ''?'' @ join ''&'' (map (\<lambda>c. ''column='' @ encodeURIComponent c) cs
                              @ concat (map (entry_parts S) ps))"
    using assms(2) unfolding buildQueryString_def Let_def list.map concat.simps column_entry_parts
    by simp
  with ps show ?thesis by metis
qed

lemma parse_buildQueryParams:
  "parse_query (buildQueryParams S opts) =
     Some (map (\<lambda>c. (''column'', c)) (case columns opts of Some cs \<Rightarrow> cs | None \<Rightarrow> []) @
           (case filter_expr opts of
              Some f \<Rightarrow> if f = [] then [] else [(''filter'', f)]
            | None \<Rightarrow> []) @
           (case sortColumn opts of
              Some c \<Rightarrow>
                if c = [] then []
                else [(''sort'', formatSort c (case sortDirection opts of Some d \<Rightarrow> d | None \<Rightarrow> ASC))]
            | None \<Rightarrow> []) @
           (case top_n opts of Some t \<Rightarrow> [(''top'', S t)] | None \<Rightarrow> []) @
           (case skip opts of Some k \<Rightarrow> [(''skip'', S k)] | None \<Rightarrow> []))"
  unfolding buildQueryParams_def parse_buildQueryString
  by (simp split: option.splits)

text \<open>
  Claim C4. For every query intent (every list of column names, every filter string,
  whatever bytes they contain), reading the assembled query string back gives exactly
  these decoded pairs, in this order: one \<open>column\<close> pair per column name in list order,
  each with the original name; then the filter with the original string (when it is
  present and not the empty string); then the sort token, \<open>top\<close> and \<open>skip\<close>. A
  field that is absent gives no pair. On the wire, the query string starts with one
  \<^verbatim>\<open>column=<percent-encoded name>\<close> part per column name, joined by \<^verbatim>\<open>&\<close>.
\<close>

theorem query_parameters_roundtrip:
  "parse_query (buildQueryParams S opts) =
     Some (map (\<lambda>c. (''column'', c)) (case columns opts of Some cs \<Rightarrow> cs | None \<Rightarrow> []) @
           (case filter_expr opts of
              Some f \<Rightarrow> if f = [] then [] else [(''filter'', f)]
            | None \<Rightarrow> []) @
           (case sortColumn opts of
              Some c \<Rightarrow>
                if c = [] then []
                else [(''sort'', formatSort c (case sortDirection opts of Some d \<Rightarrow> d | None \<Rightarrow> ASC))]
            | None \<Rightarrow> []) @
           (case top_n opts of Some t \<Rightarrow> [(''top'', S t)] | None \<Rightarrow> []) @
           (case skip opts of Some k \<Rightarrow> [(''skip'', S k)] | None \<Rightarrow> []))
   \<and> (\<forall>cs. columns opts = Some cs \<and> cs \<noteq> [] \<longrightarrow>
          (\<exists>rest. buildQueryParams S opts =
             ''?'' @ join ''&'' (map (\<lambda>c. ''column='' @ encodeURIComponent c) cs @ rest)))"
  using parse_buildQueryParams [of S opts] column_parts_first [of opts _ S] by blast

text \<open>
  The theorem at a list of columns with a space, a comma, an ampersand, a percent sign
  and a three-byte UTF-8 character.
\<close>

theorem query_parameters_roundtrip_witness:
  "parse_query (buildQueryParams String_integer
      (empty_options\<lparr>columns := Some [''First Name'', ''a,b&c%'', [CHR 0xE6, CHR 0x89, CHR 0x8B]],
                     filter_expr := Some ''[Status]=A&B and [X]>1'',
                     top_n := Some (num 500)\<rparr>)) =
     Some [(''column'', ''First Name''), (''column'', ''a,b&c%''),
           (''column'', [CHR 0xE6, CHR 0x89, CHR 0x8B]),
           (''filter'', ''[Status]=A&B and [X]>1''), (''top'', ''500'')]
   \<and> (\<exists>rest. buildQueryParams String_integer
      (empty_options\<lparr>columns := Some [''First Name'', ''a,b&c%'', [CHR 0xE6, CHR 0x89, CHR 0x8B]],
                     filter_expr := Some ''[Status]=A&B and [X]>1'',
                     top_n := Some (num 500)\<rparr>) =
        ''?'' @ join ''&'' ([''column=First%20Name'', ''column=a%2Cb%26c%25'', ''column=%E6%89%8B''] @ rest))"
proof -
  have n: "String_integer (num 500) = ''500''"
    by code_simp
  from query_parameters_roundtrip [of String_integer
      "empty_options\<lparr>columns := Some [''First Name'', ''a,b&c%'', [CHR 0xE6, CHR 0x89, CHR 0x8B]],
                     filter_expr := Some ''[Status]=A&B and [X]>1'',
                     top_n := Some (num 500)\<rparr>"]
  show ?thesis
    by (simp add: n empty_options_def encodeURIComponent_def encode_byte_def unreserved_def
          hex_digit_def)
qed

subsection \<open>The error classifier\<close>










lemma read_error_body_total: "\<exists>body. read_error_body S r = Inr body"
  by (simp add: read_error_body_def split: sum.splits)

lemma handleErrorResponse_cases:
  assumes "read_error_body S r = Inr body"
  shows "handleErrorResponse S r u =
     Typed (let message = fst (parseErrorResponse S body); errors = snd (parseErrorResponse S body) in
       if status r = 401 \<or> status r = 403
         then new_AuthenticationError (''Authentication failed: '' @ message) (status r) u
       else if status r = 404 then new_NotFoundError (''Resource not found: '' @ message) u
       else if status r = 429
         then new_RateLimitError (''Rate limit exceeded: '' @ message)
                (if truthy_string (headers_get r ''Retry-After'')
                 then Some (parseInt (the (headers_get r ''Retry-After''))) else None) u
       else if status r = 400 \<or> status r = 422
         then new_ValidationError (''Validation failed: '' @ message) (status r) errors u
       else if status r \<ge> 500 then new_ServerError (''Server error: '' @ message) (status r) u
       else new_TeamDeskError (''Request failed: '' @ message) (status r) errors u)"
  using assms by (simp add: handleErrorResponse_def Let_def split: prod.splits)

lemmas new_error_defs =
  new_AuthenticationError_def new_NotFoundError_def new_RateLimitError_def
  new_ValidationError_def new_ServerError_def new_TeamDeskError_def




lemma digits_of_429: "digits_of 429 = ''429''"
  by code_simp

lemma digits_of_404: "digits_of 404 = ''404''"
  by code_simp


text \<open>
  Claim C7 says that a body without the structured format degrades the result to the
  generic error. A 404 response whose body is neither JSON nor readable text is
  still classified as not found; only its message is the synthesized one.
\<close>

theorem unparseable_not_generic_counterexample:
  "handleErrorResponse String_integer not_found_unparseable ''https://www.teamdesk.net/x'' =
     Typed \<lparr>e_class = NotFoundError,
            e_message = ''Resource not found: HTTP 404 Not Found'',
            e_status = Some 404, e_details = None,
            e_url = Some ''https://www.teamdesk.net/x'', e_retryAfter = None\<rparr>
   \<and> \<not> structured_body not_found_unparseable
   \<and> thrown_class (handleErrorResponse String_integer not_found_unparseable
         ''https://www.teamdesk.net/x'') \<noteq> Some TeamDeskError"
  by (simp add: handleErrorResponse_def read_error_body_def not_found_unparseable_def no_body_def
      structured_body_def new_NotFoundError_def num_def digits_of_404)

text \<open>
  Claim C7, amended. For every failed response whose body does not have the structured
  error format, the classifier throws no secondary failure: it throws the typed error
  of the class that the status code determines (the generic class only for a status
  outside the table), and the message of that error is the prefix of its class followed
  by the best-effort message.
\<close>

theorem unstructured_body_keeps_variant:
  assumes "\<not> structured_body r"
  shows "handleErrorResponse S r u \<noteq> Error m
     \<and> thrown_class (handleErrorResponse S r u) = Some (variant_of_status (status r))
     \<and> (\<exists>e. handleErrorResponse S r u = Typed e
           \<and> e_message e = message_prefix (variant_of_status (status r)) @ best_effort_message S r)"
proof -
  obtain body where body: "read_error_body S r = Inr body"
    using read_error_body_total by blast
  have msg: "fst (parseErrorResponse S body) = best_effort_message S r"
    using assms body
    by (auto simp: read_error_body_def best_effort_message_def structured_body_def
        split: sum.splits json.splits option.splits)
  show ?thesis
    unfolding handleErrorResponse_cases[OF body] msg
    by (auto simp: Let_def new_error_defs variant_of_status_def)
qed

theorem unstructured_body_keeps_variant_witness:
  "\<not> structured_body not_found_unparseable
   \<and> thrown_class (handleErrorResponse String_integer not_found_unparseable ''u'') = Some NotFoundError
   \<and> (\<exists>e. handleErrorResponse String_integer not_found_unparseable ''u'' = Typed e
         \<and> e_message e = ''Resource not found: HTTP 404 Not Found'')"
proof -
  have ns: "\<not> structured_body not_found_unparseable"
    by (simp add: structured_body_def not_found_unparseable_def no_body_def)
  have v: "variant_of_status (status not_found_unparseable) = NotFoundError"
    by (simp add: variant_of_status_def not_found_unparseable_def no_body_def)
  have b: "best_effort_message String_integer not_found_unparseable = ''HTTP 404 Not Found''"
    by (simp add: best_effort_message_def not_found_unparseable_def no_body_def num_def digits_of_404)
  from unstructured_body_keeps_variant [OF ns, of String_integer "''u''"] ns v b
  show ?thesis by simp
qed

subsection \<open>The builder and the generator\<close>

lemma new_SelectBuilder_eq:
  "new_SelectBuilder cl tn cols h =
     (length (builders h),
      \<lparr>builders = builders h @ [\<lparr>client = cl, tableName = tn, options = length (option_objs h)\<rparr>],
       option_objs = option_objs h @
         [case cols of Some cs \<Rightarrow> if length cs > 0 then empty_options\<lparr>columns := Some cs\<rparr>
                                   else empty_options
          | None \<Rightarrow> empty_options]\<rparr>)"
  by (cases h)
     (simp add: new_SelectBuilder_def Let_def update_options_def this_options_def
        split: option.splits)

lemma selectAll_iteration_eq:
  assumes "valid_builder h this"
  shows "selectAll_iteration S request this offset h w =
     (case request (page_url S h this offset) w of
        (Inl e, w') \<Rightarrow> ((Completed, Throw e), iteration_heap h this offset, w')
      | (Inr batch, w') \<Rightarrow>
          if batch = [] then ((Completed, Return), iteration_heap h this offset, w')
          else ((SuspendedAtYield offset batch, Yield batch), iteration_heap h this offset, w'))"
  using assms
  unfolding selectAll_iteration_def new_SelectBuilder_eq
  by (simp add: Let_def valid_builder_def this_options_def nth_append SelectBuilder_execute_def
        page_url_def iteration_heap_def split: prod.splits sum.splits)


lemma values_of_append: "values_of k (ps @ qs) = values_of k ps @ values_of k qs"
  by (simp add: values_of_def)

lemma values_of_other_key: "k \<noteq> k' \<Longrightarrow> values_of k (map (\<lambda>c. (k', c)) cs) = []"
  by (induction cs) (simp_all add: values_of_def)

lemma page_query_top_skip:
  "\<exists>ps. parse_query (buildQueryParams S (page_options opts off)) = Some ps
        \<and> values_of ''top'' ps = [S (num 500)] \<and> values_of ''skip'' ps = [S off]"
  unfolding parse_buildQueryParams
  by (simp add: values_of_append values_of_other_key page_options_def batchSize_def
        split: option.splits)
     (simp add: values_of_def)

lemma page_options_top: "page_options (opts\<lparr>top_n := t\<rparr>) off = page_options opts off"
  by (simp add: page_options_def)

lemma page_url_top:
  assumes "valid_builder h this"
  shows "page_url S (update_options this (\<lambda>opts. opts\<lparr>top_n := t\<rparr>) h) this off = page_url S h this off"
  using assms
  by (simp add: page_url_def update_options_def this_options_def valid_builder_def page_options_top)

lemma initial_offset_eq:
  "initial_offset opts = (case skip opts of None \<Rightarrow> num 0 | Some k \<Rightarrow> if k = NaN then num 0 else k)"
  by (auto simp: initial_offset_def truthy_number_def num_def split: option.splits)

text \<open>
  Claim C1. For every builder of the store (every base intent), every transport and
  every state of the world:
  \<^item> the URL of a page does not depend on the \<^verbatim>\<open>top\<close> of the base intent, and its query
    string reads back with \<^verbatim>\<open>top\<close> = 500 and \<^verbatim>\<open>skip\<close> = the offset;
  \<^item> the first offset is the \<^verbatim>\<open>skip\<close> of the base intent, and 0 when that is absent
    (or NaN);
  \<^item> a call of \<^verbatim>\<open>next()\<close> on the generator that has not started, or that is
    suspended after a page of at least 500 records, makes one request, for the page at
    the first offset, respectively at the previous offset plus 500; it throws what the
    request throws, returns without yielding when the page is empty, and otherwise
    yields the page and suspends;
  \<^item> a call of \<^verbatim>\<open>next()\<close> on the generator suspended after a page of fewer than 500
    records returns without a request: the store and the world are unchanged.
\<close>

theorem selectAll_pagination:
  fixes request :: "string \<Rightarrow> 'w \<Rightarrow> (exn + 'r list) \<times> 'w"
  assumes "valid_builder h this"
  shows
   "(\<forall>t off. page_url S (update_options this (\<lambda>opts. opts\<lparr>top_n := t\<rparr>) h) this off
               = page_url S h this off)
  \<and> (\<forall>off. \<exists>ps. parse_query (buildQueryParams S (page_options (this_options h this) off)) = Some ps
        \<and> values_of ''top'' ps = [S (num 500)] \<and> values_of ''skip'' ps = [S off])
  \<and> initial_offset (this_options h this) =
        (case skip (this_options h this) of None \<Rightarrow> num 0 | Some k \<Rightarrow> if k = NaN then num 0 else k)
  \<and> (\<forall>st off r w w'.
        (st = NotStarted \<and> off = initial_offset (this_options h this)
         \<or> (\<exists>prev full. st = SuspendedAtYield prev full \<and> 500 \<le> length full
                \<and> off = js_add prev (num 500)))
        \<and> request (page_url S h this off) w = (r, w')
        \<longrightarrow> (\<exists>h'. selectAll_next S request this st h w =
               ((case r of
                   Inl e \<Rightarrow> (Completed, Throw e)
                 | Inr batch \<Rightarrow>
                     if batch = [] then (Completed, Return)
                     else (SuspendedAtYield off batch, Yield batch)), h', w')))
  \<and> (\<forall>prev short w. length short < 500
        \<longrightarrow> selectAll_next S request this (SuspendedAtYield prev short) h w
              = ((Completed, Return), h, w))"
proof (intro conjI allI impI)
  fix t off
  show "page_url S (update_options this (\<lambda>opts. opts\<lparr>top_n := t\<rparr>) h) this off = page_url S h this off"
    using assms by (rule page_url_top)
next
  fix off
  show "\<exists>ps. parse_query (buildQueryParams S (page_options (this_options h this) off)) = Some ps
        \<and> values_of ''top'' ps = [S (num 500)] \<and> values_of ''skip'' ps = [S off]"
    by (rule page_query_top_skip)
next
  show "initial_offset (this_options h this) =
        (case skip (this_options h this) of None \<Rightarrow> num 0 | Some k \<Rightarrow> if k = NaN then num 0 else k)"
    by (rule initial_offset_eq)
next
  fix st :: "'r generator_state" and off r w w'
  assume a: "(st = NotStarted \<and> off = initial_offset (this_options h this)
         \<or> (\<exists>prev full. st = SuspendedAtYield prev full \<and> 500 \<le> length full
                \<and> off = js_add prev (num 500)))
        \<and> request (page_url S h this off) w = (r, w')"
  then have next_eq: "selectAll_next S request this st h w = selectAll_iteration S request this off h w"
    by (auto simp: selectAll_next_def batchSize_def)
  from a have req: "request (page_url S h this off) w = (r, w')" by simp
  show "\<exists>h'. selectAll_next S request this st h w =
               ((case r of
                   Inl e \<Rightarrow> (Completed, Throw e)
                 | Inr batch \<Rightarrow>
                     if batch = [] then (Completed, Return)
                     else (SuspendedAtYield off batch, Yield batch)), h', w')"
    unfolding next_eq selectAll_iteration_eq[OF assms] req
    by (simp split: sum.splits)
next
  fix prev and short :: "'r list" and w :: 'w
  assume "length short < 500"
  then show "selectAll_next S request this (SuspendedAtYield prev short) h w = ((Completed, Return), h, w)"
    by (simp add: selectAll_next_def batchSize_def)
qed


lemma example_valid: "valid_builder example_heap 0"
  by (simp add: valid_builder_def example_heap_def)

lemma digits_of_500: "digits_of 500 = ''500''"
  by code_simp

lemma digits_of_0: "digits_of 0 = ''0''"
  by code_simp

lemma encode_Orders: "encodeURIComponent ''Orders'' = ''Orders''"
  by (simp add: encodeURIComponent_def encode_byte_def unreserved_def)

lemma encode_top: "encodeURIComponent ''top'' = ''top''"
  by (simp add: encodeURIComponent_def encode_byte_def unreserved_def)

lemma encode_skip: "encodeURIComponent ''skip'' = ''skip''"
  by (simp add: encodeURIComponent_def encode_byte_def unreserved_def)

lemma encode_500: "encodeURIComponent ''500'' = ''500''"
  by (simp add: encodeURIComponent_def encode_byte_def unreserved_def)

lemma encode_0: "encodeURIComponent ''0'' = ''0''"
  by (simp add: encodeURIComponent_def encode_byte_def unreserved_def)

lemma example_first_url:
  "page_url String_integer example_heap 0 (num 0) =
     ''https://www.teamdesk.net/secure/api/v2/15331/Orders/select.json?top=500&skip=0''"
  by (simp add: page_url_def select_url_def example_heap_def example_client_def this_options_def
      page_options_def empty_options_def buildQueryParams_def buildQueryString_def buildUrl_def
      encodeTableName_def encode_Orders encode_top encode_skip encode_500 encode_0
      num_def batchSize_def digits_of_500 digits_of_0)

text \<open>
  The first call of \<^verbatim>\<open>next()\<close> on the example: the base intent has \<^verbatim>\<open>top = 3\<close>, the
  request is for \<^verbatim>\<open>top=500&skip=0\<close>, the page of 500 records is yielded.
\<close>

theorem selectAll_pagination_witness:
  "valid_builder example_heap 0
   \<and> (\<exists>h'. selectAll_next String_integer example_backend 0 NotStarted example_heap [] =
          ((SuspendedAtYield (num 0) (replicate 500 0), Yield (replicate 500 0)), h',
           [''https://www.teamdesk.net/secure/api/v2/15331/Orders/select.json?top=500&skip=0'']))"
proof -
  have off: "initial_offset (this_options example_heap 0) = num 0"
    by (simp add: initial_offset_def this_options_def example_heap_def empty_options_def)
  have req: "example_backend (page_url String_integer example_heap 0 (num 0)) [] =
      (Inr (replicate 500 0),
       [''https://www.teamdesk.net/secure/api/v2/15331/Orders/select.json?top=500&skip=0''])"
    by (simp add: example_backend_def example_first_url)
  have ne: "replicate 500 (0::nat) \<noteq> []" by simp
  from selectAll_pagination [OF example_valid, of String_integer example_backend]
  have "\<forall>st off r w w'.
        (st = NotStarted \<and> off = initial_offset (this_options example_heap 0)
         \<or> (\<exists>prev full. st = SuspendedAtYield prev full \<and> 500 \<le> length full
                \<and> off = js_add prev (num 500)))
        \<and> example_backend (page_url String_integer example_heap 0 off) w = (r, w')
        \<longrightarrow> (\<exists>h'. selectAll_next String_integer example_backend 0 st example_heap w =
               ((case r of
                   Inl e \<Rightarrow> (Completed, Throw e)
                 | Inr batch \<Rightarrow>
                     if batch = [] then (Completed, Return)
                     else (SuspendedAtYield off batch, Yield batch)), h', w'))"
    by (elim conjE)
  from this [rule_format, of NotStarted "num 0", OF conjI [OF disjI1 [OF conjI [OF refl off [symmetric]]] req]]
  show ?thesis using example_valid ne by simp
qed


lemma iteration_heap_frame:
  assumes "valid_builder h this"
  shows "take (length (builders h)) (builders (iteration_heap h this off)) = builders h"
    and "take (length (option_objs h)) (option_objs (iteration_heap h this off)) = option_objs h"
    and "builders (iteration_heap h this off) ! this = builders h ! this"
    and "this_options (iteration_heap h this off) this = this_options h this"
    and "valid_builder (iteration_heap h this off) this"
    and "this_options (iteration_heap h this off) (length (builders h))
           = page_options (this_options h this) off"
    and "client (builders (iteration_heap h this off) ! length (builders h)) = client (builders h ! this)"
    and "tableName (builders (iteration_heap h this off) ! length (builders h))
           = tableName (builders h ! this)"
  using assms
  by (simp_all add: iteration_heap_def valid_builder_def this_options_def nth_append)

lemma selectAll_next_heap:
  assumes "valid_builder h this"
  shows "fst (snd (selectAll_next S request this st h w)) = h
       \<or> (\<exists>off. fst (snd (selectAll_next S request this st h w)) = iteration_heap h this off)"
proof (cases st)
  case NotStarted
  then show ?thesis
    by (auto simp: selectAll_next_def selectAll_iteration_eq[OF assms] split: prod.splits sum.splits)
next
  case (SuspendedAtYield prev batch)
  then show ?thesis
    by (auto simp: selectAll_next_def selectAll_iteration_eq[OF assms] split: prod.splits sum.splits)
next
  case Completed
  then show ?thesis by (simp add: selectAll_next_def)
qed

text \<open>
  Claim C9. A call of \<^verbatim>\<open>next()\<close> on the generator, in any of its states and whatever
  the transport answers, leaves every object that was in the store before the call as
  it was; in particular the builder at \<open>this\<close> and the object its \<^verbatim>\<open>options\<close> field
  points to (columns, filter, sort column and direction, skip, top). When the call made
  a request, the store has one more builder, with the same client and table, whose
  \<^verbatim>\<open>options\<close> is a new object: the intent of the base builder with only \<^verbatim>\<open>skip\<close> and
  \<^verbatim>\<open>top\<close> overridden.
\<close>

theorem selectAll_leaves_builder_unchanged:
  fixes request :: "string \<Rightarrow> 'w \<Rightarrow> (exn + 'r list) \<times> 'w"
  assumes "valid_builder h this"
  shows "\<exists>h'. fst (snd (selectAll_next S request this st h w)) = h'
     \<and> take (length (builders h)) (builders h') = builders h
     \<and> take (length (option_objs h)) (option_objs h') = option_objs h
     \<and> builders h' ! this = builders h ! this
     \<and> this_options h' this = this_options h this
     \<and> valid_builder h' this
     \<and> (h' = h
        \<or> (\<exists>off. length (builders h') = Suc (length (builders h))
              \<and> client (last (builders h')) = client (builders h ! this)
              \<and> tableName (last (builders h')) = tableName (builders h ! this)
              \<and> this_options h' (length (builders h))
                    = (this_options h this)\<lparr>skip := Some off, top_n := Some (num 500)\<rparr>))"
proof -
  from selectAll_next_heap [OF assms, of S request st w]
  consider "fst (snd (selectAll_next S request this st h w)) = h"
    | off where "fst (snd (selectAll_next S request this st h w)) = iteration_heap h this off"
    by blast
  then show ?thesis
  proof cases
    case 1
    then show ?thesis using assms by simp
  next
    case 2
    have len: "length (builders (iteration_heap h this off)) = Suc (length (builders h))"
      by (simp add: iteration_heap_def)
    have lst: "last (builders (iteration_heap h this off))
                 = builders (iteration_heap h this off) ! length (builders h)"
      by (simp add: iteration_heap_def)
    have po: "page_options (this_options h this) off
                = (this_options h this)\<lparr>skip := Some off, top_n := Some (num 500)\<rparr>"
      by (simp add: page_options_def batchSize_def)
    show ?thesis
      unfolding 2
      using iteration_heap_frame [OF assms, of off] len lst po
      by (intro exI [of _ "iteration_heap h this off"] conjI refl disjI2 exI [of _ off]) simp_all
  qed
qed

theorem selectAll_leaves_builder_unchanged_witness:
  "valid_builder example_heap 0
   \<and> this_options (fst (snd (selectAll_next String_integer example_backend 0 NotStarted example_heap [])))
         0 = empty_options\<lparr>top_n := Some (num 3)\<rparr>"
proof -
  have o: "this_options example_heap 0 = empty_options\<lparr>top_n := Some (num 3)\<rparr>"
    by (simp add: this_options_def example_heap_def)
  from selectAll_leaves_builder_unchanged
         [OF example_valid, of String_integer example_backend NotStarted "[]"]
  show ?thesis using example_valid o by auto
qed



subsection \<open>A complete run of the generator\<close>

text \<open>
  The consumer on the example: the backend has 637 records, two pages are yielded
  (500 and 137 records) after two requests, at the offsets 0 and 500, and the third
  call of \<^verbatim>\<open>next()\<close> returns without a request. Two calls do not reach the end.
\<close>

lemma example_run:
  "map_option (\<lambda>(r, h', seen). (r, seen))
     (collect_pages 3 String_integer example_backend 0 NotStarted example_heap []) =
     Some (Inr [replicate 500 0, replicate 137 1],
       [''https://www.teamdesk.net/secure/api/v2/15331/Orders/select.json?top=500&skip=0'',
        ''https://www.teamdesk.net/secure/api/v2/15331/Orders/select.json?top=500&skip=500''])"
  by code_simp

lemma example_run_short_of_calls:
  "collect_pages 2 String_integer example_backend 0 NotStarted example_heap [] = None"
  by code_simp

subsection \<open>The cache fallback, the bearer mode and the write results\<close>

lemma saveToCache_ok:
  "mkdir_error d = None \<Longrightarrow> write_error d = None \<Longrightarrow> \<exists>d'. saveToCache dir key v d = (Inr (), d')"
  by (simp add: saveToCache_def Let_def)

lemma saveToCache_fails_unchanged:
  "fst (saveToCache dir key v d) = Inl e \<Longrightarrow> saveToCache dir key v d = (Inl e, d)"
  by (auto simp: saveToCache_def Let_def split: option.splits)

text \<open>
  Claim C5 says that a failing fetcher is answered with the persisted snapshot whenever
  one exists. The \<^verbatim>\<open>catch\<close> block tests the loaded value for truthiness
  (\<^verbatim>\<open>if (cached)\<close>), so a snapshot that is \<^verbatim>\<open>0\<close>, \<^verbatim>\<open>false\<close> or the empty string is
  taken for a missing one: with the snapshot \<^verbatim>\<open>0\<close> on the disk for the key, the
  failure of the fetcher is thrown again.
\<close>

theorem falsy_snapshot_is_not_served:
  "loadFromCache ''./_tdcache'' ''count'' disk_with_zero = JNumber (num 0)
   \<and> fetchWithCache ''./_tdcache'' ''count'' failing_fetcher disk_with_zero
        = (Inl (Error ''API unavailable''), disk_with_zero)"
  by (simp add: fetchWithCache_def failing_fetcher_def fetch_fallback_def loadFromCache_def
        cache_path_def disk_with_zero_def num_def truthy_number_def)

text \<open>
  The \<^verbatim>\<open>catch\<close> block on a truthy snapshot and on a missing one, and the age of a
  snapshot whose modification time is not in the future.
\<close>

lemma fetch_fallback_truthy:
  assumes "json_truthy (loadFromCache dir key d)"
  shows "fetch_fallback dir key error d =
           (Inr \<lparr>data = loadFromCache dir key d, fromCache = True,
                 cacheAge = map_option ageInMinutes (getCacheInfo dir key d)\<rparr>, d)"
  using assms by (simp add: fetch_fallback_def Let_def)

lemma fetch_fallback_absent:
  assumes "loadFromCache dir key d = JNull"
  shows "fetch_fallback dir key error d = (Inl error, d)"
  using assms by (simp add: fetch_fallback_def Let_def)

lemma cache_age_nonnegative:
  assumes "files d (cache_path dir key) = Some f"
      and "\<forall>t. mtime f = Some t \<longrightarrow> t \<le> now d"
  shows "\<exists>q. map_option ageInMinutes (getCacheInfo dir key d) = Some (Finite q) \<and> 0 \<le> q"
proof (cases "mtime f")
  case None
  then show ?thesis using assms(1) by (simp add: getCacheInfo_def Let_def)
next
  case (Some t)
  then have "t \<le> now d" using assms(2) by simp
  then have nonneg: "(0::rat) \<le> of_int (now d - t) / 1000 / 60" by simp
  have "map_option ageInMinutes (getCacheInfo dir key d)
          = Some (Finite (of_int (now d - t) / 1000 / 60))"
    using assms(1) Some by (simp add: getCacheInfo_def Let_def)
  with nonneg show ?thesis by blast
qed

text \<open>
  Claim C6 says that the fetched data is returned with \<^verbatim>\<open>fromCache: false\<close> even when
  the snapshot cannot be written. \<^verbatim>\<open>saveToCache\<close> is awaited inside the \<^verbatim>\<open>try\<close>
  block, so its failure enters the \<^verbatim>\<open>catch\<close> block: on a disk that cannot be
  written and holds an older snapshot, the fetcher succeeds and the older snapshot is
  returned with \<^verbatim>\<open>fromCache: true\<close>.
\<close>

theorem write_failure_masks_fetch_counterexample:
  "succeeding_fetcher read_only_disk = (Inr fresh_orders, read_only_disk)
   \<and> fst (fetchWithCache ''./_tdcache'' ''orders'' succeeding_fetcher read_only_disk)
        = Inr \<lparr>data = stale_orders, fromCache = True, cacheAge = Some (Finite 1)\<rparr>
   \<and> stale_orders \<noteq> fresh_orders"
  by (simp add: fetchWithCache_def succeeding_fetcher_def saveToCache_def fetch_fallback_def
        loadFromCache_def getCacheInfo_def cache_path_def read_only_disk_def stale_orders_def
        fresh_orders_def num_def Let_def)

text \<open>
  Claim C6, amended. When the fetcher succeeds, the fetched data is returned with
  \<^verbatim>\<open>fromCache: false\<close> provided that the snapshot can be written (and it is then the
  snapshot on the disk for the key). When writing the
  snapshot fails, the failure is handled as a failure of the fetcher is: a truthy
  snapshot already on the disk for the key is returned with \<^verbatim>\<open>fromCache: true\<close> and its
  age, and when there is none the failure of the write is thrown.
\<close>

theorem fetch_success_depends_on_save:
  assumes "fetcher d = (Inr fetched, d1)"
  shows "(fst (saveToCache dir key fetched d1) = Inr ()
            \<longrightarrow> fst (fetchWithCache dir key fetcher d)
                  = Inr \<lparr>data = fetched, fromCache = False, cacheAge = None\<rparr>
              \<and> loadFromCache dir key (snd (fetchWithCache dir key fetcher d))
                  = stored_json fetched)
       \<and> (\<forall>e. fst (saveToCache dir key fetched d1) = Inl e
            \<longrightarrow> (json_truthy (loadFromCache dir key d1)
                    \<longrightarrow> fst (fetchWithCache dir key fetcher d)
                          = Inr \<lparr>data = loadFromCache dir key d1, fromCache = True,
                                 cacheAge = map_option ageInMinutes (getCacheInfo dir key d1)\<rparr>)
                \<and> (loadFromCache dir key d1 = JNull
                    \<longrightarrow> fst (fetchWithCache dir key fetcher d) = Inl e))"
proof (intro conjI allI impI)
  assume ok: "fst (saveToCache dir key fetched d1) = Inr ()"
  then obtain d' where d': "saveToCache dir key fetched d1 = (Inr (), d')"
    by (cases "saveToCache dir key fetched d1") simp
  then show "fst (fetchWithCache dir key fetcher d)
               = Inr \<lparr>data = fetched, fromCache = False, cacheAge = None\<rparr>"
    using assms by (simp add: fetchWithCache_def)
  have "loadFromCache dir key d' = stored_json fetched"
    using d' by (auto simp: saveToCache_def loadFromCache_def Let_def split: option.splits)
  then show "loadFromCache dir key (snd (fetchWithCache dir key fetcher d)) = stored_json fetched"
    using assms d' by (simp add: fetchWithCache_def)
next
  fix e
  assume f: "fst (saveToCache dir key fetched d1) = Inl e"
     and t: "json_truthy (loadFromCache dir key d1)"
  have "fetchWithCache dir key fetcher d = fetch_fallback dir key e d1"
    using assms saveToCache_fails_unchanged[OF f] by (simp add: fetchWithCache_def)
  then show "fst (fetchWithCache dir key fetcher d)
               = Inr \<lparr>data = loadFromCache dir key d1, fromCache = True,
                      cacheAge = map_option ageInMinutes (getCacheInfo dir key d1)\<rparr>"
    using fetch_fallback_truthy[OF t] by simp
next
  fix e
  assume f: "fst (saveToCache dir key fetched d1) = Inl e"
     and n: "loadFromCache dir key d1 = JNull"
  have "fetchWithCache dir key fetcher d = fetch_fallback dir key e d1"
    using assms saveToCache_fails_unchanged[OF f] by (simp add: fetchWithCache_def)
  then show "fst (fetchWithCache dir key fetcher d) = Inl e"
    using fetch_fallback_absent[OF n] by simp
qed

text \<open>
  The fetcher that succeeds, on a disk that can be written and on the disk that
  cannot.
\<close>

theorem fetch_success_depends_on_save_witness:
  "succeeding_fetcher disk_with_zero = (Inr fresh_orders, disk_with_zero)
   \<and> fst (saveToCache ''./_tdcache'' ''orders'' fresh_orders disk_with_zero) = Inr ()
   \<and> fst (fetchWithCache ''./_tdcache'' ''orders'' succeeding_fetcher disk_with_zero)
        = Inr \<lparr>data = fresh_orders, fromCache = False, cacheAge = None\<rparr>
   \<and> succeeding_fetcher read_only_disk = (Inr fresh_orders, read_only_disk)
   \<and> fst (saveToCache ''./_tdcache'' ''orders'' fresh_orders read_only_disk)
        = Inl (Error ''PermissionDenied'')
   \<and> json_truthy (loadFromCache ''./_tdcache'' ''orders'' read_only_disk)
   \<and> fst (fetchWithCache ''./_tdcache'' ''orders'' succeeding_fetcher read_only_disk)
        = Inr \<lparr>data = stale_orders, fromCache = True, cacheAge = Some (Finite 1)\<rparr>"
proof -
  have a: "succeeding_fetcher disk_with_zero = (Inr fresh_orders, disk_with_zero)"
    by (simp add: succeeding_fetcher_def)
  have b: "fst (saveToCache ''./_tdcache'' ''orders'' fresh_orders disk_with_zero) = Inr ()"
    by (simp add: saveToCache_def disk_with_zero_def)
  have c: "succeeding_fetcher read_only_disk = (Inr fresh_orders, read_only_disk)"
    by (simp add: succeeding_fetcher_def)
  have s: "fst (saveToCache ''./_tdcache'' ''orders'' fresh_orders read_only_disk)
        = Inl (Error ''PermissionDenied'')"
    by (simp add: saveToCache_def read_only_disk_def)
  have l: "loadFromCache ''./_tdcache'' ''orders'' read_only_disk = stale_orders"
    by (simp add: loadFromCache_def cache_path_def read_only_disk_def)
  have t: "json_truthy (loadFromCache ''./_tdcache'' ''orders'' read_only_disk)"
    by (simp add: l stale_orders_def)
  have g: "map_option ageInMinutes (getCacheInfo ''./_tdcache'' ''orders'' read_only_disk)
             = Some (Finite 1)"
    by (simp add: getCacheInfo_def cache_path_def read_only_disk_def Let_def)
  from fetch_success_depends_on_save
         [where fetcher = succeeding_fetcher and d = disk_with_zero and fetched = fresh_orders
            and ?d1.0 = disk_with_zero and dir = "''./_tdcache''" and key = "''orders''", OF a] b
  have 1: "fst (fetchWithCache ''./_tdcache'' ''orders'' succeeding_fetcher disk_with_zero)
        = Inr \<lparr>data = fresh_orders, fromCache = False, cacheAge = None\<rparr>"
    by blast
  from fetch_success_depends_on_save
         [where fetcher = succeeding_fetcher and d = read_only_disk and fetched = fresh_orders
            and ?d1.0 = read_only_disk and dir = "''./_tdcache''" and key = "''orders''", OF c] s t
  have 2: "fst (fetchWithCache ''./_tdcache'' ''orders'' succeeding_fetcher read_only_disk)
        = Inr \<lparr>data = loadFromCache ''./_tdcache'' ''orders'' read_only_disk, fromCache = True,
               cacheAge = map_option ageInMinutes
                            (getCacheInfo ''./_tdcache'' ''orders'' read_only_disk)\<rparr>"
    by blast
  show ?thesis using a b c s t 1 2 by (simp add: l g)
qed

text \<open>
  The fallback for a failing fetcher, on the snapshots the truthiness test accepts:
  such a snapshot is served, and without a snapshot the failure of the fetcher is
  thrown again unchanged.
\<close>

lemma fetch_failure_fallback:
  assumes "fetcher d = (Inl error, d1)"
  shows "(json_truthy (loadFromCache dir key d1)
            \<longrightarrow> fst (fetchWithCache dir key fetcher d)
                  = Inr \<lparr>data = loadFromCache dir key d1, fromCache = True,
                         cacheAge = map_option ageInMinutes (getCacheInfo dir key d1)\<rparr>)
       \<and> (loadFromCache dir key d1 = JNull
            \<longrightarrow> fetchWithCache dir key fetcher d = (Inl error, d1))"
  using assms
  by (simp add: fetchWithCache_def fetch_fallback_truthy fetch_fallback_absent)

text \<open>
  Claim C8. In bearer mode the URL that \<^verbatim>\<open>buildUrl\<close> gives for a path does not depend
  on the token: two configurations that differ only in their token give the same URL,
  which is made of the base URL, the application id and the path alone. The token
  travels in the \<^verbatim>\<open>Authorization\<close> header that \<^verbatim>\<open>request\<close> adds.
\<close>

theorem bearer_url_independent_of_token:
  assumes "useBearerAuth config"
  shows "buildUrl (config\<lparr>token := t1\<rparr>) path = buildUrl (config\<lparr>token := t2\<rparr>) path
       \<and> buildUrl config path
            = baseUrl config @ ''/'' @ appId config @ ''/'' @
              (case path of c # rest \<Rightarrow> if c = CHR ''/'' then rest else path | [] \<Rightarrow> path)
       \<and> (\<forall>secret. token config = Some secret \<and> secret \<noteq> []
             \<longrightarrow> request_headers config extra ''Authorization'' = Some (''Bearer '' @ secret))"
  using assms
  by (auto simp: buildUrl_def request_headers_def truthy_string_def Let_def split: list.splits)

theorem bearer_url_independent_of_token_witness:
  "useBearerAuth example_client
   \<and> buildUrl (example_client\<lparr>token := Some ''secret''\<rparr>) ''/describe.json''
       = buildUrl (example_client\<lparr>token := Some ''other''\<rparr>) ''/describe.json''
   \<and> buildUrl example_client ''/describe.json''
       = ''https://www.teamdesk.net/secure/api/v2/15331/describe.json''
   \<and> request_headers example_client Map.empty ''Authorization'' = Some ''Bearer secret''"
proof -
  have b: "useBearerAuth example_client" by (simp add: example_client_def)
  have t: "token example_client = Some ''secret'' \<and> ''secret'' \<noteq> []"
    by (simp add: example_client_def)
  from bearer_url_independent_of_token [OF b, of "Some ''secret''" "''/describe.json''" "Some ''other''" Map.empty]
  have 1: "buildUrl (example_client\<lparr>token := Some ''secret''\<rparr>) ''/describe.json''
       = buildUrl (example_client\<lparr>token := Some ''other''\<rparr>) ''/describe.json''"
    and 2: "buildUrl example_client ''/describe.json''
            = baseUrl example_client @ ''/'' @ appId example_client @ ''/'' @
              (case ''/describe.json'' of c # rest \<Rightarrow> if c = CHR ''/'' then rest else ''/describe.json''
               | [] \<Rightarrow> ''/describe.json'')"
    and 3: "\<forall>secret. token example_client = Some secret \<and> secret \<noteq> []
             \<longrightarrow> request_headers example_client Map.empty ''Authorization'' = Some (''Bearer '' @ secret)"
    by blast+
  from 3 t have 4: "request_headers example_client Map.empty ''Authorization'' = Some (''Bearer '' @ ''secret'')"
    by blast
  show ?thesis using b 1 2 4 by (simp add: example_client_def)
qed

text \<open>
  Claim C10. When the backend answers a create, an update or an upsert with an array of
  entries, the operation returns one result per entry, in the same order (status, id and
  key are those of the entry at the same position, \<^verbatim>\<open>success\<close> says whether the status
  is in the range from 200 to below 300), and every result has the empty list of errors
  and the empty object as data, whatever the status of its entry.
\<close>

theorem write_results_carry_no_errors_or_data:
  fixes request :: "string \<Rightarrow> string \<Rightarrow> string \<Rightarrow> 'w \<Rightarrow> (exn + raw_result list) \<times> 'w"
  shows
  "(request (write_url S this ''create'' [workflow_param workflow]) ''POST'' (J records) w
      = (Inr raw, w')
    \<longrightarrow> (\<exists>results. TableClient_create S J request this records workflow w = (Inr results, w')
          \<and> length results = length raw
          \<and> map result_status results = map raw_status raw
          \<and> map result_id results = map raw_id raw
          \<and> map result_key results = map raw_key raw
          \<and> map success results
                = map (\<lambda>r. js_ge (raw_status r) (num 200) \<and> js_lt (raw_status r) (num 300)) raw
          \<and> map result_errors results = replicate (length raw) []
          \<and> map result_data results = replicate (length raw) []))
 \<and> (request (write_url S this ''update'' [workflow_param workflow]) ''POST'' (J records) w
      = (Inr raw, w')
    \<longrightarrow> (\<exists>results. TableClient_update S J request this records workflow w = (Inr results, w')
          \<and> length results = length raw
          \<and> map result_status results = map raw_status raw
          \<and> map result_id results = map raw_id raw
          \<and> map result_key results = map raw_key raw
          \<and> map success results
                = map (\<lambda>r. js_ge (raw_status r) (num 200) \<and> js_lt (raw_status r) (num 300)) raw
          \<and> map result_errors results = replicate (length raw) []
          \<and> map result_data results = replicate (length raw) []))
 \<and> (request (write_url S this ''upsert'' (upsert_params matchColumn workflow)) ''POST'' (J records) w
      = (Inr raw, w')
    \<longrightarrow> (\<exists>results. TableClient_upsert S J request this records matchColumn workflow w
                     = (Inr results, w')
          \<and> length results = length raw
          \<and> map result_status results = map raw_status raw
          \<and> map result_id results = map raw_id raw
          \<and> map result_key results = map raw_key raw
          \<and> map success results
                = map (\<lambda>r. js_ge (raw_status r) (num 200) \<and> js_lt (raw_status r) (num 300)) raw
          \<and> map result_errors results = replicate (length raw) []
          \<and> map result_data results = replicate (length raw) []))"
  by (simp add: TableClient_create_def TableClient_update_def TableClient_upsert_def
        write_result_of_def upsert_result_of_def comp_def map_replicate_const)


text \<open>The entry with status 400 of the example gives \<^verbatim>\<open>success: false\<close> and no errors.\<close>

theorem write_results_carry_no_errors_or_data_witness:
  "example_write_backend (write_url String_integer example_table ''create'' [workflow_param None])
      ''POST'' ''[{},{},{}]'' 0 = (Inr example_raw_results, 1)
   \<and> (\<exists>results. TableClient_create String_integer (\<lambda>records. ''[{},{},{}]'') example_write_backend
                     example_table [(), (), ()] None 0 = (Inr results, 1)
          \<and> length results = 3
          \<and> map success results = [True, False, True]
          \<and> map result_errors results = [[], [], []]
          \<and> map result_data results = [[], [], []])"
proof -
  have r: "example_write_backend (write_url String_integer example_table ''create'' [workflow_param None])
      ''POST'' ((\<lambda>records. ''[{},{},{}]'') [(), (), ()]) 0 = (Inr example_raw_results, 1)"
    by (simp add: example_write_backend_def)
  have l: "length example_raw_results = 3"
    by (simp add: example_raw_results_def)
  have s: "map (\<lambda>r. js_ge (raw_status r) (num 200) \<and> js_lt (raw_status r) (num 300)) example_raw_results
             = [True, False, True]"
    by (simp add: example_raw_results_def js_ge_def num_def)
  have rep: "replicate 3 [] = [[], [], []]" by (simp add: numeral_3_eq_3)
  from write_results_carry_no_errors_or_data
         [of example_write_backend String_integer example_table None "\<lambda>records. ''[{},{},{}]''"
             "[(), (), ()]" 0 example_raw_results 1]
       r
  obtain results where
    "TableClient_create String_integer (\<lambda>records. ''[{},{},{}]'') example_write_backend
                     example_table [(), (), ()] None 0 = (Inr results, 1)"
    "length results = length example_raw_results"
    "map success results
       = map (\<lambda>r. js_ge (raw_status r) (num 200) \<and> js_lt (raw_status r) (num 300)) example_raw_results"
    "map result_errors results = replicate (length example_raw_results) []"
    "map result_data results = replicate (length example_raw_results) []"
    by blast
  then show ?thesis using r
    by (intro conjI exI [of _ results]) (simp_all add: l s rep)
qed

end
